theory Spec2Isabelle
  imports Main "HOL-Library.AList"
begin

section \<open>JavaScript values reaching buildFile\<close>

text \<open>
  The values that \<open>lib/buildFile.js\<close> inspects dynamically: \<open>typeof\<close> of the file's
  \<open>format\<close> and \<open>destination\<close>, and the truthiness of \<open>format.nested\<close>.
  A function is an object with an identity (\<open>fn_id\<close>, interpreted by the environment)
  and an own property \<open>nested\<close> (\<open>JUndefined\<close> when it was never set).
  Numbers are restricted to the integers.
\<close>

datatype jsval =
    JUndefined
  | JNull
  | JBoolean bool
  | JNumber int
  | JString (string_of: string)
  | JFunction (fn_id: nat) (fn_nested: jsval)

fun typeof :: "jsval \<Rightarrow> string" where
  "typeof JUndefined = ''undefined''"
| "typeof JNull = ''object''"
| "typeof (JBoolean b) = ''boolean''"
| "typeof (JNumber n) = ''number''"
| "typeof (JString s) = ''string''"
| "typeof (JFunction i n) = ''function''"

fun truthy :: "jsval \<Rightarrow> bool" where
  "truthy JUndefined = False"
| "truthy JNull = False"
| "truthy (JBoolean b) = b"
| "truthy (JNumber n) = (n \<noteq> 0)"
| "truthy (JString s) = (s \<noteq> [])"
| "truthy (JFunction i n) = True"

datatype jserror = Error string | TypeError string

text \<open>\<open>Array.prototype.join\<close> on an array of strings.\<close>

fun join :: "string \<Rightarrow> string list \<Rightarrow> string" where
  "join sep [] = []"
| "join sep [x] = x"
| "join sep (x # y # ys) = x @ sep @ join sep (y # ys)"

section \<open>Tokens, dictionaries, file and platform\<close>

text \<open>
  A token as buildFile reads it: \<open>propertyData.name\<close>, \<open>properties.path\<close> (an array of
  strings, joined with a dot) and \<open>properties.value\<close> (rendered by chalk as a string).
\<close>

record token =
  name :: string
  path :: "string list"
  val :: string

datatype tree = Leaf token | Branch "(string \<times> tree) list"

text \<open>
  What \<open>x.constructor\<close> evaluates to for the \<open>properties\<close> container: the global
  \<open>Object\<close> for a plain object, another constructor (\<open>Map\<close>, \<open>Array\<close>, a class), or
  \<open>undefined\<close> for an object without prototype.
\<close>

datatype ctor = Ctor_Object | Ctor_Other string | Ctor_undefined

text \<open>
  The value of a \<open>properties\<close> field: \<open>undefined\<close>, \<open>null\<close>, or an object given by its
  constructor and its own enumerable string-keyed entries (a \<open>Map\<close> keeps its
  entries elsewhere: its own enumerable keys are none).
\<close>

datatype propsval = PropsUndefined | PropsNull | PropsObject ctor "(string \<times> tree) list"

text \<open>
  A dictionary, and the result of filterProperties, which has the same two fields.
  \<open>properties = None\<close> is an object without an own key \<open>properties\<close>;
  \<open>allProperties = None\<close> is a missing (falsy) \<open>allProperties\<close>.
\<close>

record dictionary =
  properties :: "propsval option"
  allProperties :: "token list option"

definition get_properties :: "dictionary \<Rightarrow> propsval" where
  "get_properties d = (case properties d of None \<Rightarrow> PropsUndefined | Some v \<Rightarrow> v)"

record file_spec =
  file_destination :: jsval
  file_filter :: jsval
  file_format :: jsval

text \<open>\<open>platform.buildPath\<close>: a string, or absent.\<close>

record platform =
  buildPath :: "string option"

text \<open>
  \<open>filteredDictionary\<close> (lines 56-63). The model's dictionary has no other fields to copy;
  \<open>fd_unfiltered\<close> is the field \<open>_properties\<close>.
\<close>

record filtered_dictionary =
  fd_properties :: propsval
  fd_allProperties :: "token list option"
  fd_tokens :: propsval
  fd_allTokens :: "token list option"
  fd_unfiltered :: propsval

record format_args =
  arg_dictionary :: filtered_dictionary
  arg_platform :: platform
  arg_file :: file_spec

definition createFormatArgs :: "format_args \<Rightarrow> format_args" where
  \<comment> \<open>Modelled from the spec: lib/utils/createFormatArgs is not among the sources;
      the bundle holds the filtered dictionary, the platform and the file.\<close>
  "createFormatArgs a = a"

section \<open>The world: file system, console, grouped messages\<close>

record filesystem =
  dirs :: "string set"
  files :: "string \<rightharpoonup> string"

record world =
  fs :: filesystem
  console :: "string list"
  groupedMessages :: "string \<Rightarrow> string list"

definition console_log :: "string \<Rightarrow> world \<Rightarrow> world" where
  "console_log line w = w\<lparr>console := console w @ [line]\<rparr>"

text \<open>
  GroupMessages: a named, clearable bucket of message strings per key.
\<close>

definition GROUP_PropertyNameCollisionWarnings :: string where
  \<comment> \<open>Modelled from the spec: the constant of lib/utils/groupMessages, named as the spec names it.\<close>
  "GROUP_PropertyNameCollisionWarnings = ''PropertyNameCollisionWarnings''"

definition GROUP_FilteredOutputReferences :: string where
  \<comment> \<open>Modelled from the spec: the key of the process-wide reference-loss group.\<close>
  "GROUP_FilteredOutputReferences = ''FilteredOutputReferences''"

definition GroupMessages_clear :: "string \<Rightarrow> world \<Rightarrow> world" where
  \<comment> \<open>Modelled from the spec: lib/utils/groupMessages is not among the sources; clear empties the bucket.\<close>
  "GroupMessages_clear key w = w\<lparr>groupedMessages := (groupedMessages w)(key := [])\<rparr>"

definition GroupMessages_add :: "string \<Rightarrow> string \<Rightarrow> world \<Rightarrow> world" where
  \<comment> \<open>Modelled from the spec: add appends a message to the bucket.\<close>
  "GroupMessages_add key msg w =
     w\<lparr>groupedMessages := (groupedMessages w)(key := groupedMessages w key @ [msg])\<rparr>"

definition GroupMessages_count :: "string \<Rightarrow> world \<Rightarrow> nat" where
  \<comment> \<open>Modelled from the spec: the number of messages in the bucket.\<close>
  "GroupMessages_count key w = length (groupedMessages w key)"

definition GroupMessages_fetchMessages :: "string \<Rightarrow> world \<Rightarrow> string list" where
  \<comment> \<open>Modelled from the spec: the messages of the bucket, in the order added.\<close>
  "GroupMessages_fetchMessages key w = groupedMessages w key"

definition GroupMessages_flush :: "string \<Rightarrow> world \<Rightarrow> string list \<times> world" where
  \<comment> \<open>Modelled from the spec: flush is read and clear.\<close>
  "GroupMessages_flush key w = (GroupMessages_fetchMessages key w, GroupMessages_clear key w)"

section \<open>The environment\<close>

text \<open>
  What buildFile requires from outside \<open>lib/buildFile.js\<close>:
  \<^item> \<open>path_dirname\<close>: Node's \<open>path.dirname\<close>;
  \<^item> \<open>mkdirs_error\<close>, \<open>write_error\<close>: whether \<open>fs.mkdirsSync\<close> and \<open>fs.writeFileSync\<close>
    throw on this file system (permissions, a full disk, an invalid path);
  \<^item> \<open>filterProperties\<close>: \<open>lib/filterProperties\<close>, applied to the dictionary and the
    file's \<open>filter\<close>;
  \<^item> \<open>chalk\<close>: the styling of a text, by the name of the style;
  \<^item> \<open>call\<close>: what calling the function \<open>fn_id\<close> does, given \<open>this\<close> and the three
    arguments buildFile passes: it may throw, and it may change the world.
\<close>

record env =
  path_dirname :: "string \<Rightarrow> string"
  mkdirs_error :: "string \<Rightarrow> filesystem \<Rightarrow> jserror option"
  write_error :: "string \<Rightarrow> string \<Rightarrow> filesystem \<Rightarrow> jserror option"
  filterProperties :: "dictionary \<Rightarrow> jsval \<Rightarrow> jserror + dictionary"
  chalk :: "string \<Rightarrow> string \<Rightarrow> string"
  call :: "nat \<Rightarrow> file_spec \<Rightarrow> format_args \<Rightarrow> platform \<Rightarrow> file_spec \<Rightarrow> world
             \<Rightarrow> (jserror + string) \<times> world"

definition existsSync :: "string \<Rightarrow> filesystem \<Rightarrow> bool" where
  "existsSync p f = (p \<in> dirs f \<or> files f p \<noteq> None)"

text \<open>
  The file system is the set of the directories and the contents of the files, by path.
  \<open>fs.mkdirsSync\<close> of fs-extra makes its argument a directory together with every
  missing ancestor: a path that exists is left alone; a path whose parent
  (\<open>path.dirname\<close> of it) exists, or that is its own parent, is made; otherwise the parent
  is made first, in the same way, and then the path. \<open>mkdirs_made\<close> lists the directories
  this creates, ancestors first. \<open>path.dirname\<close> shortens a path except at the top of the
  chain (\<open>.\<close> for a relative path, \<open>/\<close> for an absolute one), which is where the
  recursion ends. \<open>fs.writeFileSync\<close> replaces the content at its path.
\<close>

fun mkdirs_made :: "(string \<Rightarrow> string) \<Rightarrow> filesystem \<Rightarrow> string \<Rightarrow> string list" where
  "mkdirs_made dn f p =
     (if existsSync p f then []
      else if dn p = p \<or> existsSync (dn p) f then [p]
      else if length (dn p) < length p then mkdirs_made dn f (dn p) @ [p]
      else [dn p, p])"

declare mkdirs_made.simps [simp del]

definition mkdirsSync :: "env \<Rightarrow> string \<Rightarrow> filesystem \<Rightarrow> jserror + filesystem" where
  "mkdirsSync e d f =
     (case mkdirs_error e d f of
        Some err \<Rightarrow> Inl err
      | None \<Rightarrow> Inr (f\<lparr>dirs := dirs f \<union> set (mkdirs_made (path_dirname e) f d)\<rparr>))"

definition writeFileSync :: "env \<Rightarrow> string \<Rightarrow> string \<Rightarrow> filesystem \<Rightarrow> jserror + filesystem" where
  "writeFileSync e p content f =
     (case write_error e p content f of
        Some err \<Rightarrow> Inl err
      | None \<Rightarrow> Inr (f\<lparr>files := (files f)(p \<mapsto> content)\<rparr>))"

text \<open>
  \<open>format.bind(file)\<close> (line 43): a new function object that calls its target with
  \<open>this\<close> fixed. The bound function is a fresh object: the own properties of its target,
  \<open>nested\<close> among them, are not properties of it.
\<close>

record bound_function =
  bound_target :: jsval
  bound_this :: file_spec

definition bind :: "jsval \<Rightarrow> file_spec \<Rightarrow> bound_function" where
  "bind f this = \<lparr>bound_target = f, bound_this = this\<rparr>"

definition bound_nested :: "bound_function \<Rightarrow> jsval" where
  "bound_nested b = JUndefined"

definition call_bound ::
  "env \<Rightarrow> bound_function \<Rightarrow> format_args \<Rightarrow> platform \<Rightarrow> file_spec \<Rightarrow> world
     \<Rightarrow> (jserror + string) \<times> world" where
  "call_bound e b a p f w = call e (fn_id (bound_target b)) (bound_this b) a p f w"

section \<open>Plain objects used as dictionaries\<close>

text \<open>
  \<open>nameCollisionObj\<close> is an object literal \<open>{}\<close>: its own properties, in the order of
  their creation, are an association list; a read of a key that is not an own property
  continues in \<open>Object.prototype\<close>, whose members are all truthy and have no \<open>push\<close>.
\<close>

definition object_prototype_keys :: "string list" where
  "object_prototype_keys =
     [''constructor'', ''__defineGetter__'', ''__defineSetter__'', ''hasOwnProperty'',
      ''__lookupGetter__'', ''__lookupSetter__'', ''isPrototypeOf'', ''propertyIsEnumerable'',
      ''toString'', ''valueOf'', ''__proto__'', ''toLocaleString'']"

text \<open>
  \<open>Object.keys\<close> lists the own keys that are array indices (the canonical decimal
  numerals below \<open>2^32 - 1\<close>) first, in ascending numeric order, and then the other string
  keys in the order of their creation.
\<close>

definition is_digit :: "char \<Rightarrow> bool" where
  "is_digit c = (c \<in> set ''0123456789'')"

definition decimal_value :: "string \<Rightarrow> nat" where
  "decimal_value s = foldl (\<lambda>n c. 10 * n + (of_char c - 48)) 0 s"

definition is_array_index :: "string \<Rightarrow> bool" where
  "is_array_index s =
     (s \<noteq> [] \<and> list_all is_digit s \<and> (s = ''0'' \<or> hd s \<noteq> CHR ''0'')
      \<and> decimal_value s < 4294967295)"

definition key_order :: "string list \<Rightarrow> string list" where
  "key_order keys =
     sort_key decimal_value (filter is_array_index keys)
       @ filter (\<lambda>k. \<not> is_array_index k) keys"

definition object_keys :: "(string \<times> 'a) list \<Rightarrow> string list" where
  "object_keys obj = key_order (map fst obj)"

section \<open>buildFile\<close>

subsection \<open>Lines 44-49: the full destination\<close>

definition fullDestination_of :: "platform \<Rightarrow> string \<Rightarrow> string" where
  "fullDestination_of platform destination =
     (case buildPath platform of
        None \<Rightarrow> destination
      | Some p \<Rightarrow> if p \<noteq> [] then p @ destination else destination)"

subsection \<open>Lines 56-63: the filtered dictionary\<close>

definition filteredDictionary_of :: "dictionary \<Rightarrow> dictionary \<Rightarrow> filtered_dictionary" where
  "filteredDictionary_of dictionary filteredProperties =
     \<lparr>fd_properties = get_properties filteredProperties,
      fd_allProperties = allProperties filteredProperties,
      fd_tokens = get_properties filteredProperties,
      fd_allTokens = allProperties filteredProperties,
      fd_unfiltered = get_properties dictionary\<rparr>"

subsection \<open>Lines 66-70: is the properties object empty?\<close>

text \<open>
  \<open>hasOwnProperty('properties') && Object.keys(properties).length === 0 &&
  properties.constructor === Object\<close>, evaluated left to right. \<open>Object.keys\<close> throws a
  TypeError on \<open>undefined\<close> and \<open>null\<close>.
\<close>

definition propertiesEmpty :: "dictionary \<Rightarrow> jserror + bool" where
  "propertiesEmpty filteredProperties =
     (case properties filteredProperties of
        None \<Rightarrow> Inr False
      | Some PropsUndefined \<Rightarrow> Inl (TypeError ''Cannot convert undefined or null to object'')
      | Some PropsNull \<Rightarrow> Inl (TypeError ''Cannot convert undefined or null to object'')
      | Some (PropsObject c entries) \<Rightarrow>
          Inr (length (object_keys entries) = 0 \<and> c = Ctor_Object))"

subsection \<open>Lines 77-84: grouping the tokens by name\<close>

definition collect ::
  "(string \<times> token list) list \<Rightarrow> token \<Rightarrow> jserror + (string \<times> token list) list" where
  "collect nameCollisionObj propertyData =
     (let propertyName = name propertyData
      in case map_of nameCollisionObj propertyName of
           Some arr \<Rightarrow> Inr (AList.update propertyName (arr @ [propertyData]) nameCollisionObj)
         | None \<Rightarrow>
             if propertyName \<in> set object_prototype_keys
             then Inl (TypeError ''nameCollisionObj[propertyName].push is not a function'')
             else Inr (nameCollisionObj @ [(propertyName, [propertyData])]))"

fun collectAll ::
  "token list \<Rightarrow> (string \<times> token list) list \<Rightarrow> jserror + (string \<times> token list) list" where
  "collectAll [] nameCollisionObj = Inr nameCollisionObj"
| "collectAll (propertyData # rest) nameCollisionObj =
     (case collect nameCollisionObj propertyData of
        Inl err \<Rightarrow> Inl err
      | Inr obj \<Rightarrow> collectAll rest obj)"

definition nameCollisions :: "token list option \<Rightarrow> jserror + (string \<times> token list) list" where
  "nameCollisions all =
     (case all of None \<Rightarrow> Inr [] | Some tokens \<Rightarrow> collectAll tokens [])"

subsection \<open>Lines 86-100: one message per colliding name\<close>

definition collisionLine :: "env \<Rightarrow> token \<Rightarrow> string" where
  "collisionLine e props =
     chalk e ''orangered'' (join ''.'' (path props)) @ ''   '' @ chalk e ''darkorange'' (val props)"

definition collisionMessage :: "env \<Rightarrow> string \<Rightarrow> token list \<Rightarrow> string" where
  "collisionMessage e propertyName arr =
     ''Output name '' @ chalk e ''orangered.bold'' propertyName
       @ '' was generated by:\<newline>        ''
       @ join ''\<newline>        '' (map (collisionLine e) arr)"

fun addCollisions ::
  "env \<Rightarrow> string \<Rightarrow> (string \<times> token list) list \<Rightarrow> string list \<Rightarrow> world \<Rightarrow> world" where
  "addCollisions e key nameCollisionObj [] w = w"
| "addCollisions e key nameCollisionObj (propertyName # rest) w =
     addCollisions e key nameCollisionObj rest
       (case map_of nameCollisionObj propertyName of
          None \<Rightarrow> w
        | Some arr \<Rightarrow>
            if length arr > 1
            then GroupMessages_add key (collisionMessage e propertyName arr) w
            else w)"

subsection \<open>Lines 109-139: reporting\<close>

definition check_mark :: string where
  "check_mark = [CHR 0xE2, CHR 0x9C, CHR 0x94, CHR 0xEF, CHR 0xB8, CHR 0x8E]"

definition warning_sign :: string where
  "warning_sign = [CHR 0xE2, CHR 0x9A, CHR 0xA0, CHR 0xEF, CHR 0xB8, CHR 0x8F]"

definition collisionHelp :: "env \<Rightarrow> string" where
  "collisionHelp e = chalk e ''orange'' (join ''\<newline>    ''
     [''This many-to-one issue is usually caused by some combination of:'',
      ''* conflicting or similar paths/names in property definitions'',
      ''* platform transforms/transformGroups affecting names, especially when removing specificity'',
      ''* overly inclusive file filters''])"

definition collisionBlock :: "env \<Rightarrow> string \<Rightarrow> string list \<Rightarrow> string" where
  "collisionBlock e destination messages =
     (let propertyNamesCollisionWarnings = join ''\<newline>    '' messages;
          title = ''While building '' @ chalk e ''orangered.bold'' destination
                  @ '', token collisions were found; output may be unexpected.'';
          help = collisionHelp e;
          warn = title @ ''\<newline>    '' @ propertyNamesCollisionWarnings @ ''\<newline>'' @ help
      in chalk e ''darkorange.bold'' warn)"

definition referencesBlock :: "env \<Rightarrow> string \<Rightarrow> string list \<Rightarrow> string" where
  "referencesBlock e destination messages =
     (let filteredReferencesWarnings = join ''\<newline>    '' messages;
          title = ''While building '' @ chalk e ''orangered.bold'' destination
                  @ '', filtered out token references were found; output may be unexpected. Here are the references that are used but not defined in the file'';
          help = chalk e ''orange''
                   (join ''\<newline>    ''
                      [''This is caused when combining a filter and `outputReferences`.'']);
          warn = title @ ''\<newline>    '' @ filteredReferencesWarnings @ ''\<newline>'' @ help
      in chalk e ''darkorange.bold'' warn)"

definition report ::
  "env \<Rightarrow> jsval \<Rightarrow> string \<Rightarrow> string \<Rightarrow> string \<Rightarrow> nat \<Rightarrow> world \<Rightarrow> world" where
  "report e nested destination fullDestination PROPERTY_NAME_COLLISION_WARNINGS
          propertyNamesCollisionCount w =
     (let filteredReferencesCount = GroupMessages_count GROUP_FilteredOutputReferences w
      in if (truthy nested \<or> propertyNamesCollisionCount = 0) \<and> filteredReferencesCount = 0
         then console_log (chalk e ''bold.green'' (check_mark @ '' '' @ fullDestination)) w
         else
           (let w1 = console_log (warning_sign @ '' '' @ fullDestination) w;
                w2 = (if propertyNamesCollisionCount > 0
                      then console_log
                             (collisionBlock e destination
                                (GroupMessages_fetchMessages PROPERTY_NAME_COLLISION_WARNINGS w1))
                             w1
                      else w1)
            in if filteredReferencesCount > 0
               then (case GroupMessages_flush GROUP_FilteredOutputReferences w2 of
                       (messages, w3) \<Rightarrow> console_log (referencesBlock e destination messages) w3)
               else w2))"

subsection \<open>Lines 77-107: detection, formatting, writing\<close>

text \<open>
  Lines 86-100 as one step: the group of the destination is cleared, then filled with
  one message per own key of \<open>nameCollisionObj\<close> that holds more than one token, the keys
  taken in the order of \<open>Object.keys\<close>.
\<close>

definition collisionWarnings ::
  "env \<Rightarrow> string \<Rightarrow> (string \<times> token list) list \<Rightarrow> world \<Rightarrow> world" where
  "collisionWarnings e destination nameCollisionObj w =
     (let PROPERTY_NAME_COLLISION_WARNINGS =
            GROUP_PropertyNameCollisionWarnings @ '':'' @ destination
      in addCollisions e PROPERTY_NAME_COLLISION_WARNINGS nameCollisionObj
           (object_keys nameCollisionObj)
           (GroupMessages_clear PROPERTY_NAME_COLLISION_WARNINGS w))"

text \<open>
  Lines 77-107: the result is \<open>propertyNamesCollisionCount\<close> (line 102), with the world
  after \<open>fs.writeFileSync\<close>; an error thrown by the grouping, by the formatter or by the
  write ends the call.
\<close>

definition buildFile_emit ::
  "env \<Rightarrow> file_spec \<Rightarrow> platform \<Rightarrow> dictionary \<Rightarrow> dictionary \<Rightarrow> world
     \<Rightarrow> (jserror + nat) \<times> world" where
  "buildFile_emit e file platform dictionary filteredProperties w =
     (let destination = string_of (file_destination file);
          format = bind (file_format file) file;
          fullDestination = fullDestination_of platform destination;
          filteredDictionary = filteredDictionary_of dictionary filteredProperties
      in case nameCollisions (allProperties filteredProperties) of
           Inl err \<Rightarrow> (Inl err, w)
         | Inr nameCollisionObj \<Rightarrow>
             (let PROPERTY_NAME_COLLISION_WARNINGS =
                    GROUP_PropertyNameCollisionWarnings @ '':'' @ destination;
                  w2 = collisionWarnings e destination nameCollisionObj w;
                  propertyNamesCollisionCount =
                    GroupMessages_count PROPERTY_NAME_COLLISION_WARNINGS w2
              in case call_bound e format
                        (createFormatArgs
                           \<lparr>arg_dictionary = filteredDictionary,
                            arg_platform = platform, arg_file = file\<rparr>)
                        platform file w2 of
                   (Inl err, w3) \<Rightarrow> (Inl err, w3)
                 | (Inr content, w3) \<Rightarrow>
                     (case writeFileSync e fullDestination content (fs w3) of
                        Inl err \<Rightarrow> (Inl err, w3)
                      | Inr fs4 \<Rightarrow> (Inr propertyNamesCollisionCount, w3\<lparr>fs := fs4\<rparr>))))"

subsection \<open>Lines 77-139: emission, then the report\<close>

text \<open>\<open>nested\<close> is \<open>format.nested\<close> of the function the file supplies (line 41).\<close>

definition buildFile_write ::
  "env \<Rightarrow> file_spec \<Rightarrow> platform \<Rightarrow> dictionary \<Rightarrow> dictionary \<Rightarrow> world
     \<Rightarrow> (jserror + jsval) \<times> world" where
  "buildFile_write e file platform dictionary filteredProperties w =
     (let destination = string_of (file_destination file);
          nested = fn_nested (file_format file);
          fullDestination = fullDestination_of platform destination;
          PROPERTY_NAME_COLLISION_WARNINGS =
            GROUP_PropertyNameCollisionWarnings @ '':'' @ destination
      in case buildFile_emit e file platform dictionary filteredProperties w of
           (Inl err, w') \<Rightarrow> (Inl err, w')
         | (Inr propertyNamesCollisionCount, w4) \<Rightarrow>
             (Inr JUndefined,
              report e nested destination fullDestination PROPERTY_NAME_COLLISION_WARNINGS
                propertyNamesCollisionCount w4))"

subsection \<open>Lines 31-74, and the whole function\<close>

text \<open>
  The result is the value returned (\<open>null\<close> when no file is created, \<open>undefined\<close> at the
  end of the function) or the error thrown, with the world as the call leaves it.
\<close>

definition buildFile ::
  "env \<Rightarrow> file_spec \<Rightarrow> platform \<Rightarrow> dictionary \<Rightarrow> world \<Rightarrow> (jserror + jsval) \<times> world" where
  "buildFile e file platform dictionary w =
     (let destination = file_destination file;
          filter_f = file_filter file;
          format = file_format file
      in if typeof format \<noteq> ''function''
         then (Inl (Error ''Please enter a valid file format''), w)
         else if typeof destination \<noteq> ''string''
         then (Inl (Error ''Please enter a valid destination''), w)
         else
           (let fullDestination = fullDestination_of platform (string_of destination);
                dirname = path_dirname e fullDestination
            in case (if \<not> existsSync dirname (fs w)
                     then mkdirsSync e dirname (fs w)
                     else Inr (fs w)) of
                 Inl err \<Rightarrow> (Inl err, w)
               | Inr fs1 \<Rightarrow>
                   (let w1 = w\<lparr>fs := fs1\<rparr>
                    in case filterProperties e dictionary filter_f of
                         Inl err \<Rightarrow> (Inl err, w1)
                       | Inr filteredProperties \<Rightarrow>
                           (case propertiesEmpty filteredProperties of
                              Inl err \<Rightarrow> (Inl err, w1)
                            | Inr True \<Rightarrow>
                                (let warnNoFile = ''No properties for '' @ string_of destination
                                                  @ ''. File not created.''
                                 in (Inr JNull,
                                     console_log (chalk e ''darkorange'' warnNoFile) w1))
                            | Inr False \<Rightarrow>
                                buildFile_write e file platform dictionary
                                  filteredProperties w1))))"

section \<open>A concrete environment\<close>

text \<open>
  An environment to run buildFile in: no file system failure, no styling, a filter that
  keeps every token when the file has no \<open>filter\<close> and none when it has one, and a
  formatter that concatenates the values of the filtered tokens. \<open>example_dirname\<close> agrees
  with \<open>path.dirname\<close> on relative paths without trailing or repeated slashes.
\<close>

definition example_dirname :: "string \<Rightarrow> string" where
  "example_dirname p =
     (let d = rev (drop 1 (dropWhile (\<lambda>c. c \<noteq> CHR ''/'') (rev p)))
      in if d = [] then ''.'' else d)"

definition example_env :: env where
  "example_env =
     \<lparr>path_dirname = example_dirname,
      mkdirs_error = (\<lambda>d f. None),
      write_error = (\<lambda>p c f. None),
      filterProperties = (\<lambda>d flt.
         if truthy flt
         then Inr \<lparr>properties = Some (PropsObject Ctor_Object []), allProperties = Some []\<rparr>
         else Inr d),
      chalk = (\<lambda>style s. s),
      call = (\<lambda>i this a p f w.
         (Inr (concat (map val (case fd_allProperties (arg_dictionary a) of
                                  None \<Rightarrow> [] | Some ts \<Rightarrow> ts))), w))\<rparr>"

definition example_world :: world where
  "example_world =
     \<lparr>fs = \<lparr>dirs = {}, files = Map.empty\<rparr>, console = [], groupedMessages = (\<lambda>k. [])\<rparr>"

definition example_dictionary :: dictionary where
  "example_dictionary =
     \<lparr>properties = Some (PropsObject Ctor_Object
        [(''color'', Branch
           [(''a'', Leaf \<lparr>name = ''color-a'', path = [''color'', ''a''], val = ''#fff''\<rparr>),
            (''b'', Leaf \<lparr>name = ''color-a'', path = [''color'', ''b''], val = ''#000''\<rparr>)])]),
      allProperties = Some
        [\<lparr>name = ''color-a'', path = [''color'', ''a''], val = ''#fff''\<rparr>,
         \<lparr>name = ''color-a'', path = [''color'', ''b''], val = ''#000''\<rparr>]\<rparr>"

definition example_file :: file_spec where
  "example_file =
     \<lparr>file_destination = JString ''tokens.json'', file_filter = JUndefined,
      file_format = JFunction 0 JUndefined\<rparr>"

section \<open>Auxiliary notions for the statements\<close>

text \<open>
  Lines 51-53 when they do not throw: the directory of the full destination exists
  afterwards, created with its missing ancestors if it did not.
\<close>

definition ensureDir :: "env \<Rightarrow> file_spec \<Rightarrow> platform \<Rightarrow> world \<Rightarrow> world" where
  "ensureDir e file platform w =
     (let dirname = path_dirname e
                      (fullDestination_of platform (string_of (file_destination file)))
      in if existsSync dirname (fs w) then w
         else w\<lparr>fs := (fs w)\<lparr>dirs := dirs (fs w)
                  \<union> set (mkdirs_made (path_dirname e) (fs w) dirname)\<rparr>\<rparr>)"

text \<open>Lines 51-53 do not throw: the directory exists, or creating it succeeds.\<close>

definition mkdirs_ok :: "env \<Rightarrow> file_spec \<Rightarrow> platform \<Rightarrow> world \<Rightarrow> bool" where
  "mkdirs_ok e file platform w =
     (let dirname = path_dirname e
                      (fullDestination_of platform (string_of (file_destination file)))
      in existsSync dirname (fs w) \<or> mkdirs_error e dirname (fs w) = None)"

text \<open>The key of the destination's collision group (line 86).\<close>

definition collisionKey :: "string \<Rightarrow> string" where
  "collisionKey destination = GROUP_PropertyNameCollisionWarnings @ '':'' @ destination"

text \<open>
  The messages that lines 88-100 add for the keys \<open>ks\<close>, in the order of \<open>ks\<close>: one for
  each key holding more than one token.
\<close>

definition messagesFor :: "env \<Rightarrow> (string \<times> token list) list \<Rightarrow> string list \<Rightarrow> string list" where
  "messagesFor e obj ks =
     concat (map (\<lambda>k. case map_of obj k of
                          None \<Rightarrow> []
                        | Some arr \<Rightarrow> if length arr > 1 then [collisionMessage e k arr] else [])
                 ks)"

text \<open>The lines that the report prints, from the state of the groups before it.\<close>

definition reportLines ::
  "env \<Rightarrow> jsval \<Rightarrow> string \<Rightarrow> string \<Rightarrow> string \<Rightarrow> nat \<Rightarrow> world \<Rightarrow> string list" where
  "reportLines e nested destination fullDestination key n w =
     (if (truthy nested \<or> n = 0) \<and> groupedMessages w GROUP_FilteredOutputReferences = []
      then [chalk e ''bold.green'' (check_mark @ '' '' @ fullDestination)]
      else [warning_sign @ '' '' @ fullDestination]
           @ (if n > 0 then [collisionBlock e destination (groupedMessages w key)] else [])
           @ (if groupedMessages w GROUP_FilteredOutputReferences \<noteq> []
              then [referencesBlock e destination (groupedMessages w GROUP_FilteredOutputReferences)]
              else []))"

text \<open>
  The distinct elements of a list in the order of their first occurrence, and the tokens
  of a list that have a given name, in the order of the list.
\<close>

definition first_seen :: "'a list \<Rightarrow> 'a list" where
  "first_seen xs = rev (remdups (rev xs))"

definition tokensNamed :: "string \<Rightarrow> token list \<Rightarrow> token list" where
  "tokensNamed n T = filter (\<lambda>t. name t = n) T"

text \<open>
  The names of \<open>T\<close> in the order they are first seen, each with its tokens in the order
  of \<open>T\<close>.
\<close>

definition groupsOf :: "token list \<Rightarrow> (string \<times> token list) list" where
  "groupsOf T = map (\<lambda>n. (n, tokensNamed n T)) (first_seen (map name T))"

text \<open>
  The invariant of the loop of lines 78-84, after the tokens \<open>P\<close>: the keys of
  \<open>nameCollisionObj\<close> are the names seen, in the order they were first seen, each holding
  the tokens of that name in the order of \<open>P\<close>.
\<close>

definition grouped :: "token list \<Rightarrow> (string \<times> token list) list \<Rightarrow> bool" where
  "grouped P obj \<longleftrightarrow>
     map fst obj = first_seen (map name P)
     \<and> (\<forall>n. map_of obj n = (if n \<in> name ` set P then Some (tokensNamed n P) else None))"

text \<open>
  What a formatter does to the world when it registers the reference losses \<open>R\<close>: it
  appends them to the process-wide group that line 109 counts.
\<close>

definition registerReferences :: "string list \<Rightarrow> world \<Rightarrow> world" where
  "registerReferences R v =
     v\<lparr>groupedMessages := (groupedMessages v)
          (GROUP_FilteredOutputReferences := groupedMessages v GROUP_FilteredOutputReferences @ R)\<rparr>"

text \<open>Further inputs for the concrete environment.\<close>

definition empty_result :: dictionary where
  "empty_result = \<lparr>properties = Some (PropsObject Ctor_Object []), allProperties = Some []\<rparr>"

definition filtering_file :: file_spec where
  "filtering_file =
     \<lparr>file_destination = JString ''build/tokens.json'', file_filter = JFunction 1 JUndefined,
      file_format = JFunction 0 JUndefined\<rparr>"

definition map_dictionary :: dictionary where
  "map_dictionary =
     \<lparr>properties = Some (PropsObject (Ctor_Other ''Map'') []),
      allProperties = Some [\<lparr>name = ''size-1'', path = [''size'', ''1''], val = ''4px''\<rparr>]\<rparr>"

definition old_world :: world where
  "old_world =
     \<lparr>fs = \<lparr>dirs = {''build''}, files = [''build/tokens.json'' \<mapsto> ''old content'']\<rparr>,
      console = [], groupedMessages = (\<lambda>k. [])\<rparr>"

text \<open>A world with the current directory and one file in it.\<close>

definition cwd_world :: world where
  "cwd_world =
     \<lparr>fs = \<lparr>dirs = {''.''}, files = [''notes.txt'' \<mapsto> ''old content'']\<rparr>,
      console = [], groupedMessages = (\<lambda>k. [])\<rparr>"

definition nested_file :: file_spec where
  "nested_file =
     \<lparr>file_destination = JString ''tokens.json'', file_filter = JUndefined,
      file_format = JFunction 0 (JBoolean True)\<rparr>"

definition references_world :: world where
  "references_world =
     \<lparr>fs = \<lparr>dirs = {}, files = Map.empty\<rparr>, console = [],
      groupedMessages = (\<lambda>k. if k = GROUP_FilteredOutputReferences then [''color.base''] else [])\<rparr>"

definition numbered_tokens :: "token list" where
  "numbered_tokens =
     [\<lparr>name = ''2'', path = [''size'', ''2''], val = ''8px''\<rparr>,
      \<lparr>name = ''2'', path = [''space'', ''2''], val = ''2rem''\<rparr>,
      \<lparr>name = ''1'', path = [''size'', ''1''], val = ''4px''\<rparr>,
      \<lparr>name = ''1'', path = [''space'', ''1''], val = ''1rem''\<rparr>]"

definition numbered_obj :: "(string \<times> token list) list" where
  "numbered_obj =
     [(''2'', [\<lparr>name = ''2'', path = [''size'', ''2''], val = ''8px''\<rparr>,
               \<lparr>name = ''2'', path = [''space'', ''2''], val = ''2rem''\<rparr>]),
      (''1'', [\<lparr>name = ''1'', path = [''size'', ''1''], val = ''4px''\<rparr>,
               \<lparr>name = ''1'', path = [''space'', ''1''], val = ''1rem''\<rparr>])]"

definition example_tokens :: "token list" where
  "example_tokens =
     [\<lparr>name = ''color-a'', path = [''color'', ''a''], val = ''#fff''\<rparr>,
      \<lparr>name = ''size-s'', path = [''size'', ''s''], val = ''4px''\<rparr>,
      \<lparr>name = ''color-a'', path = [''color'', ''b''], val = ''#000''\<rparr>]"

definition single_dictionary :: dictionary where
  "single_dictionary =
     \<lparr>properties = Some (PropsObject Ctor_Object
        [(''size'', Branch [(''s'', Leaf \<lparr>name = ''size-s'', path = [''size'', ''s''], val = ''4px''\<rparr>)])]),
      allProperties = Some [\<lparr>name = ''size-s'', path = [''size'', ''s''], val = ''4px''\<rparr>]\<rparr>"

text \<open>The concrete environment with a formatter that registers one reference loss.\<close>

definition referencing_env :: env where
  "referencing_env =
     example_env\<lparr>call := (\<lambda>i this a p f w.
       (Inr (concat (map val (case fd_allProperties (arg_dictionary a) of
                                None \<Rightarrow> [] | Some ts \<Rightarrow> ts))),
        registerReferences [''color.base''] w))\<rparr>"

section \<open>Unfolding the model\<close>

lemmas model_defs =
  buildFile_def buildFile_write_def buildFile_emit_def collisionWarnings_def report_def propertiesEmpty_def nameCollisions_def
  collect_def fullDestination_of_def filteredDictionary_of_def get_properties_def
  existsSync_def mkdirsSync_def mkdirs_made.simps writeFileSync_def bind_def call_bound_def createFormatArgs_def
  console_log_def GroupMessages_clear_def GroupMessages_add_def GroupMessages_count_def
  GroupMessages_fetchMessages_def GroupMessages_flush_def
  GROUP_PropertyNameCollisionWarnings_def GROUP_FilteredOutputReferences_def
  object_keys_def key_order_def is_array_index_def is_digit_def decimal_value_def object_prototype_keys_def
  collisionMessage_def collisionLine_def collisionBlock_def referencesBlock_def collisionHelp_def

lemmas example_defs =
  example_env_def example_world_def example_dictionary_def example_file_def example_dirname_def

section \<open>Invalid file specifications\<close>

text \<open>
  C3, as the code has it: when the file's \<open>format\<close> is not a function, or its
  \<open>destination\<close> is not a string, buildFile throws an error whose message names the
  field (the format first when both are invalid), and leaves the world as it found it:
  no directory is created, nothing is printed, no message group is touched.
  The destination is tested with \<open>typeof\<close> only: an empty string passes.
\<close>

theorem C3_invalid_file_spec_throws:
  "typeof (file_format file) \<noteq> ''function'' \<or> typeof (file_destination file) \<noteq> ''string'' \<Longrightarrow>
   buildFile e file platform dictionary w =
     (Inl (Error (if typeof (file_format file) \<noteq> ''function''
                  then ''Please enter a valid file format''
                  else ''Please enter a valid destination'')), w)"
  by (auto simp: buildFile_def Let_def)

theorem C3_invalid_file_spec_throws_witness:
  "typeof (file_format (example_file\<lparr>file_format := JUndefined\<rparr>)) \<noteq> ''function''
   \<and> buildFile example_env (example_file\<lparr>file_format := JUndefined\<rparr>) \<lparr>buildPath = None\<rparr>
         example_dictionary example_world
       = (Inl (Error ''Please enter a valid file format''), example_world)"
  using C3_invalid_file_spec_throws
          [of "example_file\<lparr>file_format := JUndefined\<rparr>" example_env "\<lparr>buildPath = None\<rparr>"
              example_dictionary example_world]
  by (simp add: example_file_def)

text \<open>
  An empty destination is not refused: with a filter that keeps nothing, the call returns
  \<open>null\<close> after creating the directory \<open>.\<close>.
\<close>

theorem C3_empty_destination_accepted:
  "fst (buildFile example_env
          \<lparr>file_destination = JString [], file_filter = JFunction 1 JUndefined,
           file_format = JFunction 0 JUndefined\<rparr>
          \<lparr>buildPath = None\<rparr> example_dictionary example_world) = Inr JNull
   \<and> ''.'' \<in> dirs (fs (snd (buildFile example_env
          \<lparr>file_destination = JString [], file_filter = JFunction 1 JUndefined,
           file_format = JFunction 0 JUndefined\<rparr>
          \<lparr>buildPath = None\<rparr> example_dictionary example_world)))
   \<and> ''.'' \<notin> dirs (fs example_world)"
  by (simp add: model_defs example_defs Let_def)

section \<open>The path up to the emptiness test\<close>

lemma mkdirs_made_self: "\<not> existsSync p f \<Longrightarrow> p \<in> set (mkdirs_made dn f p)"
  by (subst mkdirs_made.simps) simp

lemma length_object_keys: "length (object_keys obj) = length obj"
  using sum_length_filter_compl [of is_array_index "map fst obj"]
  by (simp add: object_keys_def key_order_def)

lemma propertiesEmpty_True_iff:
  "propertiesEmpty fp = Inr True \<longleftrightarrow> properties fp = Some (PropsObject Ctor_Object [])"
  by (auto simp: propertiesEmpty_def length_object_keys split: option.splits propsval.splits)

lemma buildFile_filtered:
  assumes "typeof (file_format file) = ''function''"
      and "typeof (file_destination file) = ''string''"
      and "mkdirs_ok e file platform w"
      and "filterProperties e dictionary (file_filter file) = Inr fp"
  shows "buildFile e file platform dictionary w =
           (case propertiesEmpty fp of
              Inl err \<Rightarrow> (Inl err, ensureDir e file platform w)
            | Inr True \<Rightarrow>
                (Inr JNull,
                 console_log (chalk e ''darkorange''
                    (''No properties for '' @ string_of (file_destination file)
                       @ ''. File not created.''))
                   (ensureDir e file platform w))
            | Inr False \<Rightarrow>
                buildFile_write e file platform dictionary fp (ensureDir e file platform w))"
  using assms
  by (auto simp: buildFile_def mkdirs_ok_def ensureDir_def mkdirsSync_def Let_def
           split: sum.splits bool.splits)

lemma buildFile_write_not_null:
  "fst (buildFile_write e file platform dictionary fp w) \<noteq> Inr JNull"
  by (auto simp: buildFile_write_def Let_def split: sum.splits prod.splits)

section \<open>No properties: no file\<close>

text \<open>
  C4: when the file specification is valid, the directory exists or can be created, and
  the filtered \<open>properties\<close> is an empty plain object (what a filter that excludes every
  token yields), buildFile returns \<open>null\<close> without throwing, prints exactly one line,
  \<open>No properties for <destination>. File not created.\<close> with the destination as the
  file gives it (no build path in front), and leaves every file as it was.
\<close>

theorem C4_no_properties_message:
  assumes "typeof (file_format file) = ''function''"
      and "typeof (file_destination file) = ''string''"
      and "mkdirs_ok e file platform w"
      and "filterProperties e dictionary (file_filter file) = Inr fp"
      and "properties fp = Some (PropsObject Ctor_Object [])"
  shows "fst (buildFile e file platform dictionary w) = Inr JNull
         \<and> console (snd (buildFile e file platform dictionary w))
             = console w @ [chalk e ''darkorange''
                  (''No properties for '' @ string_of (file_destination file)
                     @ ''. File not created.'')]
         \<and> files (fs (snd (buildFile e file platform dictionary w))) = files (fs w)"
proof -
  have "propertiesEmpty fp = Inr True"
    using assms(5) by (simp add: propertiesEmpty_True_iff)
  then show ?thesis
    using buildFile_filtered [OF assms(1-4)]
    by (simp add: console_log_def ensureDir_def Let_def)
qed

theorem C4_no_properties_message_witness:
  "mkdirs_ok example_env filtering_file \<lparr>buildPath = Some ''out/''\<rparr> example_world
   \<and> filterProperties example_env example_dictionary (file_filter filtering_file) = Inr empty_result
   \<and> fst (buildFile example_env filtering_file \<lparr>buildPath = Some ''out/''\<rparr> example_dictionary
            example_world) = Inr JNull
   \<and> console (snd (buildFile example_env filtering_file \<lparr>buildPath = Some ''out/''\<rparr>
                     example_dictionary example_world))
       = [''No properties for build/tokens.json. File not created.'']
   \<and> files (fs (snd (buildFile example_env filtering_file \<lparr>buildPath = Some ''out/''\<rparr>
                     example_dictionary example_world))) = Map.empty"
proof -
  have h1: "typeof (file_format filtering_file) = ''function''"
    by (simp add: filtering_file_def)
  have h2: "typeof (file_destination filtering_file) = ''string''"
    by (simp add: filtering_file_def)
  have h3: "mkdirs_ok example_env filtering_file \<lparr>buildPath = Some ''out/''\<rparr> example_world"
    by (simp add: mkdirs_ok_def example_env_def)
  have h4: "filterProperties example_env example_dictionary (file_filter filtering_file)
              = Inr empty_result"
    by (simp add: example_env_def filtering_file_def empty_result_def)
  have h5: "properties empty_result = Some (PropsObject Ctor_Object [])"
    by (simp add: empty_result_def)
  show ?thesis
    using C4_no_properties_message [OF h1 h2 h3 h4 h5] h3 h4
    by (simp add: example_env_def example_world_def filtering_file_def)
qed

text \<open>
  C2, as the code has it: on the same path no file is written or changed, the message
  groups are untouched and the formatter plays no part (any other behaviour of
  \<open>call\<close> gives the same result), and \<open>null\<close> is returned; but lines 51-53 run before
  the filter, so when the directory of the full destination does not exist it is created,
  together with each of its ancestors that is missing. Nothing else of the file system
  changes: the directories that were there remain, and the ones added are exactly those
  that \<open>fs.mkdirsSync\<close> makes.
\<close>

theorem C2_skip_writes_no_file:
  assumes "typeof (file_format file) = ''function''"
      and "typeof (file_destination file) = ''string''"
      and "mkdirs_ok e file platform w"
      and "filterProperties e dictionary (file_filter file) = Inr fp"
      and "properties fp = Some (PropsObject Ctor_Object [])"
  shows "fst (buildFile e file platform dictionary w) = Inr JNull
         \<and> files (fs (snd (buildFile e file platform dictionary w))) = files (fs w)
         \<and> dirs (fs (snd (buildFile e file platform dictionary w)))
             = (let dirname = path_dirname e
                      (fullDestination_of platform (string_of (file_destination file)))
                in if existsSync dirname (fs w) then dirs (fs w)
                   else dirs (fs w) \<union> set (mkdirs_made (path_dirname e) (fs w) dirname))
         \<and> existsSync
               (path_dirname e (fullDestination_of platform (string_of (file_destination file))))
               (fs (snd (buildFile e file platform dictionary w)))
         \<and> fs (snd (buildFile e file platform dictionary w)) = fs (ensureDir e file platform w)
         \<and> groupedMessages (snd (buildFile e file platform dictionary w)) = groupedMessages w
         \<and> buildFile (e\<lparr>call := c\<rparr>) file platform dictionary w
             = buildFile e file platform dictionary w"
proof -
  let ?d = "path_dirname e (fullDestination_of platform (string_of (file_destination file)))"
  have empty: "propertiesEmpty fp = Inr True"
    using assms(5) by (simp add: propertiesEmpty_True_iff)
  have ok': "mkdirs_ok (e\<lparr>call := c\<rparr>) file platform w"
    using assms(3) by (simp add: mkdirs_ok_def)
  have flt': "filterProperties (e\<lparr>call := c\<rparr>) dictionary (file_filter file) = Inr fp"
    using assms(4) by simp
  have dir': "ensureDir (e\<lparr>call := c\<rparr>) file platform w = ensureDir e file platform w"
    by (simp add: ensureDir_def Let_def)
  have res: "buildFile e file platform dictionary w
               = (Inr JNull,
                  console_log (chalk e ''darkorange''
                     (''No properties for '' @ string_of (file_destination file)
                        @ ''. File not created.''))
                    (ensureDir e file platform w))"
    using empty buildFile_filtered [OF assms(1-4)] by simp
  have res': "buildFile (e\<lparr>call := c\<rparr>) file platform dictionary w
               = buildFile e file platform dictionary w"
    using empty buildFile_filtered [OF assms(1,2) ok' flt'] dir' res by simp
  have fsd: "fs (snd (buildFile e file platform dictionary w)) = fs (ensureDir e file platform w)"
    by (simp add: res console_log_def)
  have ex: "existsSync ?d (fs (ensureDir e file platform w))"
  proof (cases "existsSync ?d (fs w)")
    case True
    then show ?thesis by (simp add: ensureDir_def Let_def)
  next
    case False
    then show ?thesis
      using mkdirs_made_self [of ?d "fs w" "path_dirname e"]
      by (simp add: ensureDir_def existsSync_def Let_def)
  qed
  have "fst (buildFile e file platform dictionary w) = Inr JNull"
    by (simp add: res)
  moreover have "files (fs (snd (buildFile e file platform dictionary w))) = files (fs w)"
    by (simp add: fsd ensureDir_def Let_def)
  moreover have "dirs (fs (snd (buildFile e file platform dictionary w)))
             = (let dirname = path_dirname e
                      (fullDestination_of platform (string_of (file_destination file)))
                in if existsSync dirname (fs w) then dirs (fs w)
                   else dirs (fs w) \<union> set (mkdirs_made (path_dirname e) (fs w) dirname))"
    by (simp add: fsd ensureDir_def Let_def)
  moreover have "existsSync ?d (fs (snd (buildFile e file platform dictionary w)))"
    using ex by (simp add: fsd)
  moreover have "groupedMessages (snd (buildFile e file platform dictionary w))
                   = groupedMessages w"
    by (simp add: res console_log_def ensureDir_def Let_def)
  ultimately show ?thesis
    using fsd res' by simp
qed

theorem C2_skip_writes_no_file_witness:
  "mkdirs_ok example_env filtering_file \<lparr>buildPath = Some ''out/''\<rparr> cwd_world
   \<and> filterProperties example_env example_dictionary (file_filter filtering_file) = Inr empty_result
   \<and> fst (buildFile example_env filtering_file \<lparr>buildPath = Some ''out/''\<rparr> example_dictionary
            cwd_world) = Inr JNull
   \<and> files (fs (snd (buildFile example_env filtering_file \<lparr>buildPath = Some ''out/''\<rparr>
                     example_dictionary cwd_world)))
       = [''notes.txt'' \<mapsto> ''old content'']
   \<and> dirs (fs cwd_world) = {''.''}
   \<and> dirs (fs (snd (buildFile example_env filtering_file \<lparr>buildPath = Some ''out/''\<rparr>
                     example_dictionary cwd_world))) = {''.'', ''out'', ''out/build''}"
proof -
  have h1: "typeof (file_format filtering_file) = ''function''"
    by (simp add: filtering_file_def)
  have h2: "typeof (file_destination filtering_file) = ''string''"
    by (simp add: filtering_file_def)
  have h3: "mkdirs_ok example_env filtering_file \<lparr>buildPath = Some ''out/''\<rparr> cwd_world"
    by (simp add: mkdirs_ok_def example_env_def)
  have h4: "filterProperties example_env example_dictionary (file_filter filtering_file)
              = Inr empty_result"
    by (simp add: example_env_def filtering_file_def empty_result_def)
  have h5: "properties empty_result = Some (PropsObject Ctor_Object [])"
    by (simp add: empty_result_def)
  have made: "mkdirs_made example_dirname (fs cwd_world) ''out/build'' = [''out'', ''out/build'']"
    by (simp add: mkdirs_made.simps example_dirname_def existsSync_def cwd_world_def)
  have nex: "\<not> existsSync ''out/build'' (fs cwd_world)"
    by (simp add: existsSync_def cwd_world_def)
  have dn: "path_dirname example_env
              (fullDestination_of \<lparr>buildPath = Some ''out/''\<rparr>
                 (string_of (file_destination filtering_file))) = ''out/build''"
    by (simp add: example_env_def example_dirname_def fullDestination_of_def filtering_file_def)
  have pd: "path_dirname example_env = example_dirname"
    by (simp add: example_env_def)
  note c2 = C2_skip_writes_no_file [OF h1 h2 h3 h4 h5, of "call example_env"]
  have r1: "fst (buildFile example_env filtering_file \<lparr>buildPath = Some ''out/''\<rparr>
                   example_dictionary cwd_world) = Inr JNull"
    using c2 by blast
  have r2: "files (fs (snd (buildFile example_env filtering_file \<lparr>buildPath = Some ''out/''\<rparr>
                     example_dictionary cwd_world))) = files (fs cwd_world)"
    using c2 by blast
  have r3: "dirs (fs (snd (buildFile example_env filtering_file \<lparr>buildPath = Some ''out/''\<rparr>
                     example_dictionary cwd_world)))
             = (let dirname = path_dirname example_env
                      (fullDestination_of \<lparr>buildPath = Some ''out/''\<rparr>
                         (string_of (file_destination filtering_file)))
                in if existsSync dirname (fs cwd_world) then dirs (fs cwd_world)
                   else dirs (fs cwd_world)
                          \<union> set (mkdirs_made (path_dirname example_env) (fs cwd_world) dirname))"
    using c2 by blast
  have r3': "dirs (fs (snd (buildFile example_env filtering_file \<lparr>buildPath = Some ''out/''\<rparr>
                     example_dictionary cwd_world))) = dirs (fs cwd_world) \<union> {''out'', ''out/build''}"
    unfolding r3 Let_def dn using nex by (simp add: pd made)
  have d0: "dirs (fs cwd_world) = {''.''}"
    by (simp add: cwd_world_def)
  have f0: "files (fs cwd_world) = [''notes.txt'' \<mapsto> ''old content'']"
    by (simp add: cwd_world_def)
  from h3 h4 r1 r2 r3' d0 f0 show ?thesis
    by auto
qed

text \<open>
  The directory \<open>build\<close> is created although no file is written.
\<close>

theorem C2_skip_creates_directory:
  "fst (buildFile example_env filtering_file \<lparr>buildPath = None\<rparr> example_dictionary
          example_world) = Inr JNull
   \<and> ''build'' \<notin> dirs (fs example_world)
   \<and> ''build'' \<in> dirs (fs (snd (buildFile example_env filtering_file \<lparr>buildPath = None\<rparr>
                                  example_dictionary example_world)))"
  by (simp add: model_defs example_defs filtering_file_def Let_def)


text \<open>
  C9: the call returns \<open>null\<close> (no file) exactly when the filtered result has an own
  \<open>properties\<close> that is a plain object (constructor \<open>Object\<close>) without enumerable keys.
  When \<open>properties\<close> is empty but has another constructor or none (a \<open>Map\<close>, an object
  without prototype), or is not an own key at all, buildFile goes on to lines 77-139:
  it calls the formatter and writes the file.
\<close>

theorem C9_skip_only_for_plain_empty_object:
  assumes "typeof (file_format file) = ''function''"
      and "typeof (file_destination file) = ''string''"
      and "mkdirs_ok e file platform w"
      and "filterProperties e dictionary (file_filter file) = Inr fp"
  shows "(fst (buildFile e file platform dictionary w) = Inr JNull
            \<longleftrightarrow> properties fp = Some (PropsObject Ctor_Object []))
         \<and> (properties fp = Some (PropsObject c []) \<and> c \<noteq> Ctor_Object \<longrightarrow>
              buildFile e file platform dictionary w
                = buildFile_write e file platform dictionary fp (ensureDir e file platform w))
         \<and> (properties fp = None \<longrightarrow>
              buildFile e file platform dictionary w
                = buildFile_write e file platform dictionary fp (ensureDir e file platform w))"
proof -
  note bf = buildFile_filtered [OF assms]
  have a: "fst (buildFile e file platform dictionary w) = Inr JNull
            \<longleftrightarrow> properties fp = Some (PropsObject Ctor_Object [])"
  proof (cases "propertiesEmpty fp")
    case (Inl err)
    then show ?thesis
      using bf propertiesEmpty_True_iff [of fp] by simp
  next
    case (Inr b)
    then show ?thesis
      using bf propertiesEmpty_True_iff [of fp]
            buildFile_write_not_null [of e "file" platform dictionary fp "ensureDir e file platform w"]
      by (cases b) simp_all
  qed
  have b: "properties fp = Some (PropsObject c []) \<and> c \<noteq> Ctor_Object \<longrightarrow>
              buildFile e file platform dictionary w
                = buildFile_write e file platform dictionary fp (ensureDir e file platform w)"
    using bf by (auto simp: propertiesEmpty_def)
  have c: "properties fp = None \<longrightarrow>
              buildFile e file platform dictionary w
                = buildFile_write e file platform dictionary fp (ensureDir e file platform w)"
    using bf by (auto simp: propertiesEmpty_def)
  from a b c show ?thesis by blast
qed

theorem C9_skip_only_for_plain_empty_object_witness:
  "mkdirs_ok example_env example_file \<lparr>buildPath = None\<rparr> example_world
   \<and> filterProperties example_env map_dictionary (file_filter example_file) = Inr map_dictionary
   \<and> properties map_dictionary = Some (PropsObject (Ctor_Other ''Map'') [])
   \<and> fst (buildFile example_env example_file \<lparr>buildPath = None\<rparr> map_dictionary example_world)
       = Inr JUndefined
   \<and> files (fs (snd (buildFile example_env example_file \<lparr>buildPath = None\<rparr> map_dictionary
                     example_world))) ''tokens.json'' = Some ''4px''"
proof -
  have h1: "typeof (file_format example_file) = ''function''"
    by (simp add: example_file_def)
  have h2: "typeof (file_destination example_file) = ''string''"
    by (simp add: example_file_def)
  have h3: "mkdirs_ok example_env example_file \<lparr>buildPath = None\<rparr> example_world"
    by (simp add: mkdirs_ok_def example_env_def)
  have h4: "filterProperties example_env map_dictionary (file_filter example_file)
              = Inr map_dictionary"
    by (simp add: example_env_def example_file_def)
  have h5: "properties map_dictionary = Some (PropsObject (Ctor_Other ''Map'') [])"
    by (simp add: map_dictionary_def)
  have "buildFile example_env example_file \<lparr>buildPath = None\<rparr> map_dictionary example_world
          = buildFile_write example_env example_file \<lparr>buildPath = None\<rparr> map_dictionary
              map_dictionary (ensureDir example_env example_file \<lparr>buildPath = None\<rparr> example_world)"
    using C9_skip_only_for_plain_empty_object [OF h1 h2 h3 h4, of "Ctor_Other ''Map''"] h5
    by simp
  then show ?thesis
    using h3 h4 h5
    by (simp add: model_defs example_defs ensureDir_def map_dictionary_def Let_def)
qed

section \<open>The path that writes the file\<close>

lemma messagesFor_Nil [simp]: "messagesFor e obj [] = []"
  by (simp add: messagesFor_def)

lemma messagesFor_Cons:
  "messagesFor e obj (k # ks) =
     (case map_of obj k of
        None \<Rightarrow> []
      | Some arr \<Rightarrow> if length arr > 1 then [collisionMessage e k arr] else [])
     @ messagesFor e obj ks"
  by (simp add: messagesFor_def)

lemma addCollisions_eq:
  "addCollisions e key obj ks w =
     w\<lparr>groupedMessages := (groupedMessages w)(key := groupedMessages w key @ messagesFor e obj ks)\<rparr>"
proof (induction ks arbitrary: w)
  case Nil
  show ?case by simp
next
  case (Cons k ks)
  show ?case
    by (cases "map_of obj k")
       (simp_all add: Cons.IH messagesFor_Cons GroupMessages_add_def cong: if_cong)
qed

lemma collisionWarnings_eq:
  "collisionWarnings e destination obj w =
     w\<lparr>groupedMessages := (groupedMessages w)
          (collisionKey destination := messagesFor e obj (object_keys obj))\<rparr>"
  by (simp add: collisionWarnings_def collisionKey_def addCollisions_eq GroupMessages_clear_def
        Let_def)

lemma collisionKey_neq_references:
  "collisionKey destination \<noteq> GROUP_FilteredOutputReferences"
  by (simp add: collisionKey_def GROUP_PropertyNameCollisionWarnings_def
        GROUP_FilteredOutputReferences_def)

lemma fs_report [simp]: "fs (report e nested destination fullDestination key n w) = fs w"
  by (simp add: report_def console_log_def GroupMessages_flush_def GroupMessages_clear_def Let_def)

lemma groupedMessages_report:
  "groupedMessages (report e nested destination fullDestination key n w) =
     (groupedMessages w)(GROUP_FilteredOutputReferences := [])"
  by (auto simp: report_def console_log_def GroupMessages_flush_def GroupMessages_clear_def
        GroupMessages_count_def Let_def fun_eq_iff)

lemma console_report:
  "console (report e nested destination fullDestination key n w) =
     console w @ reportLines e nested destination fullDestination key n w"
  by (auto simp: report_def reportLines_def console_log_def GroupMessages_flush_def
        GroupMessages_clear_def GroupMessages_count_def GroupMessages_fetchMessages_def Let_def)

lemma buildFile_emit_eq:
  "buildFile_emit e file platform dictionary fp w =
     (case nameCollisions (allProperties fp) of
        Inl err \<Rightarrow> (Inl err, w)
      | Inr obj \<Rightarrow>
          (case call e (fn_id (file_format file)) file
                  \<lparr>arg_dictionary = filteredDictionary_of dictionary fp,
                   arg_platform = platform, arg_file = file\<rparr>
                  platform file
                  (collisionWarnings e (string_of (file_destination file)) obj w) of
             (Inl err, w3) \<Rightarrow> (Inl err, w3)
           | (Inr content, w3) \<Rightarrow>
               (case write_error e (fullDestination_of platform (string_of (file_destination file)))
                       content (fs w3) of
                  Some err \<Rightarrow> (Inl err, w3)
                | None \<Rightarrow>
                    (Inr (length (messagesFor e obj (object_keys obj))),
                     w3\<lparr>fs := (fs w3)\<lparr>files := (files (fs w3))
                        (fullDestination_of platform (string_of (file_destination file))
                           \<mapsto> content)\<rparr>\<rparr>))))"
  by (simp add: buildFile_emit_def call_bound_def bind_def createFormatArgs_def writeFileSync_def
        GroupMessages_count_def collisionWarnings_eq collisionKey_def Let_def
      split: sum.splits prod.splits option.splits)

lemma buildFile_emit_returns:
  assumes "buildFile_emit e file platform dictionary fp w = (Inr n, w4)"
  shows "\<exists>obj content w3.
           nameCollisions (allProperties fp) = Inr obj
         \<and> call e (fn_id (file_format file)) file
                \<lparr>arg_dictionary = filteredDictionary_of dictionary fp,
                 arg_platform = platform, arg_file = file\<rparr>
                platform file
                (collisionWarnings e (string_of (file_destination file)) obj w)
             = (Inr content, w3)
         \<and> write_error e (fullDestination_of platform (string_of (file_destination file)))
               content (fs w3) = None
         \<and> n = length (messagesFor e obj (object_keys obj))
         \<and> w4 = w3\<lparr>fs := (fs w3)\<lparr>files := (files (fs w3))
                     (fullDestination_of platform (string_of (file_destination file))
                        \<mapsto> content)\<rparr>\<rparr>"
  using assms
  by (auto simp: buildFile_emit_eq split: sum.splits prod.splits option.splits)

lemma buildFile_returns_undefined:
  assumes "buildFile e file platform dictionary w = (Inr JUndefined, w')"
  shows "\<exists>fp n w4.
           typeof (file_format file) = ''function''
         \<and> typeof (file_destination file) = ''string''
         \<and> mkdirs_ok e file platform w
         \<and> filterProperties e dictionary (file_filter file) = Inr fp
         \<and> propertiesEmpty fp = Inr False
         \<and> buildFile_emit e file platform dictionary fp (ensureDir e file platform w) = (Inr n, w4)
         \<and> w' = report e (fn_nested (file_format file)) (string_of (file_destination file))
                   (fullDestination_of platform (string_of (file_destination file)))
                   (collisionKey (string_of (file_destination file))) n w4"
proof -
  have t1: "typeof (file_format file) = ''function''"
    using assms by (auto simp: buildFile_def Let_def split: if_splits)
  have t2: "typeof (file_destination file) = ''string''"
    using assms by (auto simp: buildFile_def Let_def split: if_splits)
  have ok: "mkdirs_ok e file platform w"
    using assms t1 t2
    by (auto simp: buildFile_def mkdirs_ok_def mkdirsSync_def Let_def
             split: if_splits option.splits)
  obtain fp where fp: "filterProperties e dictionary (file_filter file) = Inr fp"
    using assms t1 t2
    by (cases "filterProperties e dictionary (file_filter file)")
       (auto simp: buildFile_def Let_def split: if_splits sum.splits)
  note bf = buildFile_filtered [OF t1 t2 ok fp]
  have ne: "propertiesEmpty fp = Inr False"
    using assms bf by (auto split: sum.splits bool.splits)
  then have w: "buildFile_write e file platform dictionary fp (ensureDir e file platform w)
                  = (Inr JUndefined, w')"
    using assms bf by simp
  then obtain n w4 where
    em: "buildFile_emit e file platform dictionary fp (ensureDir e file platform w) = (Inr n, w4)"
    by (auto simp: buildFile_write_def Let_def split: prod.splits sum.splits)
  with w have "w' = report e (fn_nested (file_format file)) (string_of (file_destination file))
                   (fullDestination_of platform (string_of (file_destination file)))
                   (collisionKey (string_of (file_destination file))) n w4"
    by (simp add: buildFile_write_def collisionKey_def Let_def)
  with t1 t2 ok fp ne em show ?thesis by blast
qed


lemma old_world_run:
  "buildFile example_env example_file \<lparr>buildPath = Some ''build/''\<rparr> example_dictionary old_world
     = (Inr JUndefined,
        snd (buildFile example_env example_file \<lparr>buildPath = Some ''build/''\<rparr> example_dictionary
               old_world))"
proof -
  have "fst (buildFile example_env example_file \<lparr>buildPath = Some ''build/''\<rparr> example_dictionary
               old_world) = Inr JUndefined"
    by (simp add: model_defs example_defs old_world_def Let_def)
  then show ?thesis
    by (metis prod.collapse)
qed

lemma nested_run:
  "buildFile example_env nested_file \<lparr>buildPath = None\<rparr> example_dictionary example_world
     = (Inr JUndefined,
        snd (buildFile example_env nested_file \<lparr>buildPath = None\<rparr> example_dictionary
               example_world))"
proof -
  have "fst (buildFile example_env nested_file \<lparr>buildPath = None\<rparr> example_dictionary
               example_world) = Inr JUndefined"
    by (simp add: model_defs example_defs nested_file_def Let_def)
  then show ?thesis
    by (metis prod.collapse)
qed

section \<open>Reporting\<close>



section \<open>The file written\<close>

text \<open>
  C7: when buildFile returns at its end, the file at the build path (the empty string
  when the platform has none) followed by the destination holds exactly the string that
  the formatter returned, whatever was there before; the call changes no other file and
  no directory after the formatter has returned.
\<close>

theorem C7_written_content:
  assumes "buildFile e file platform dictionary w = (Inr JUndefined, w')"
  shows "\<exists>fp obj content w3.
           filterProperties e dictionary (file_filter file) = Inr fp
         \<and> nameCollisions (allProperties fp) = Inr obj
         \<and> call e (fn_id (file_format file)) file
                \<lparr>arg_dictionary = filteredDictionary_of dictionary fp,
                 arg_platform = platform, arg_file = file\<rparr>
                platform file
                (collisionWarnings e (string_of (file_destination file)) obj
                   (ensureDir e file platform w))
             = (Inr content, w3)
         \<and> files (fs w')
               ((case buildPath platform of None \<Rightarrow> [] | Some p \<Rightarrow> p)
                  @ string_of (file_destination file))
             = Some content
         \<and> (\<forall>p. p \<noteq> (case buildPath platform of None \<Rightarrow> [] | Some p \<Rightarrow> p)
                        @ string_of (file_destination file)
                \<longrightarrow> files (fs w') p = files (fs w3) p)
         \<and> dirs (fs w') = dirs (fs w3)"
proof -
  from buildFile_returns_undefined [OF assms] obtain fp n w4 where
    fp: "filterProperties e dictionary (file_filter file) = Inr fp" and
    em: "buildFile_emit e file platform dictionary fp (ensureDir e file platform w) = (Inr n, w4)" and
    w': "w' = report e (fn_nested (file_format file)) (string_of (file_destination file))
                   (fullDestination_of platform (string_of (file_destination file)))
                   (collisionKey (string_of (file_destination file))) n w4"
    by blast
  from buildFile_emit_returns [OF em] obtain obj content w3 where
    obj: "nameCollisions (allProperties fp) = Inr obj" and
    cl: "call e (fn_id (file_format file)) file
                \<lparr>arg_dictionary = filteredDictionary_of dictionary fp,
                 arg_platform = platform, arg_file = file\<rparr>
                platform file
                (collisionWarnings e (string_of (file_destination file)) obj
                   (ensureDir e file platform w))
             = (Inr content, w3)" and
    w4: "w4 = w3\<lparr>fs := (fs w3)\<lparr>files := (files (fs w3))
                     (fullDestination_of platform (string_of (file_destination file))
                        \<mapsto> content)\<rparr>\<rparr>"
    by blast
  have full: "fullDestination_of platform (string_of (file_destination file))
                = (case buildPath platform of None \<Rightarrow> [] | Some p \<Rightarrow> p)
                    @ string_of (file_destination file)"
    by (simp add: fullDestination_of_def split: option.splits)
  have "fs w' = (fs w3)\<lparr>files := (files (fs w3))
                     ((case buildPath platform of None \<Rightarrow> [] | Some p \<Rightarrow> p)
                        @ string_of (file_destination file) \<mapsto> content)\<rparr>"
    unfolding w' w4 full by simp
  then have "files (fs w')
               ((case buildPath platform of None \<Rightarrow> [] | Some p \<Rightarrow> p)
                  @ string_of (file_destination file)) = Some content
         \<and> (\<forall>p. p \<noteq> (case buildPath platform of None \<Rightarrow> [] | Some p \<Rightarrow> p)
                        @ string_of (file_destination file)
                \<longrightarrow> files (fs w') p = files (fs w3) p)
         \<and> dirs (fs w') = dirs (fs w3)"
    by simp
  with fp obj cl show ?thesis by blast
qed

theorem C7_written_content_witness:
  "buildFile example_env example_file \<lparr>buildPath = Some ''build/''\<rparr> example_dictionary old_world
     = (Inr JUndefined,
        snd (buildFile example_env example_file \<lparr>buildPath = Some ''build/''\<rparr> example_dictionary
               old_world))
   \<and> files (fs old_world) ''build/tokens.json'' = Some ''old content''
   \<and> files (fs (snd (buildFile example_env example_file \<lparr>buildPath = Some ''build/''\<rparr>
                        example_dictionary old_world))) ''build/tokens.json''
       = Some ''#fff#000''"
proof -
  from C7_written_content [OF old_world_run] obtain fp obj content w3 where
    fp: "filterProperties example_env example_dictionary (file_filter example_file) = Inr fp" and
    cl: "call example_env (fn_id (file_format example_file)) example_file
                \<lparr>arg_dictionary = filteredDictionary_of example_dictionary fp,
                 arg_platform = \<lparr>buildPath = Some ''build/''\<rparr>, arg_file = example_file\<rparr>
                \<lparr>buildPath = Some ''build/''\<rparr> example_file
                (collisionWarnings example_env (string_of (file_destination example_file)) obj
                   (ensureDir example_env example_file \<lparr>buildPath = Some ''build/''\<rparr> old_world))
             = (Inr content, w3)" and
    wr: "files (fs (snd (buildFile example_env example_file \<lparr>buildPath = Some ''build/''\<rparr>
                        example_dictionary old_world)))
               ((case buildPath \<lparr>buildPath = Some ''build/''\<rparr> of None \<Rightarrow> [] | Some p \<Rightarrow> p)
                  @ string_of (file_destination example_file))
             = Some content"
    by blast
  have fp': "fp = example_dictionary"
    using fp by (simp add: example_env_def example_file_def)
  have "content = ''#fff#000''"
    using cl unfolding fp'
    by (simp add: example_env_def example_dictionary_def filteredDictionary_of_def)
  with wr old_world_run show ?thesis
    by (simp add: example_file_def old_world_def)
qed

section \<open>The formatter and its nested marker\<close>

text \<open>
  C10: when buildFile returns at its end, the formatter was called through the function
  bound to the file: \<open>this\<close> is the file, and the arguments are the bundle of
  createFormatArgs (filtered dictionary, platform, file), the platform and the file.
  The report is made with the \<open>nested\<close> property of the function that the file
  supplied; the bound function itself has no such property.
\<close>

theorem C10_nested_read_before_bind:
  assumes "buildFile e file platform dictionary w = (Inr JUndefined, w')"
  shows "\<exists>fp obj n content w2 w3.
           filterProperties e dictionary (file_filter file) = Inr fp
         \<and> nameCollisions (allProperties fp) = Inr obj
         \<and> w2 = collisionWarnings e (string_of (file_destination file)) obj
                  (ensureDir e file platform w)
         \<and> n = GroupMessages_count (collisionKey (string_of (file_destination file))) w2
         \<and> call_bound e (bind (file_format file) file)
                (createFormatArgs
                   \<lparr>arg_dictionary = filteredDictionary_of dictionary fp,
                    arg_platform = platform, arg_file = file\<rparr>)
                platform file w2
             = call e (fn_id (file_format file)) file
                \<lparr>arg_dictionary = filteredDictionary_of dictionary fp,
                 arg_platform = platform, arg_file = file\<rparr>
                platform file w2
         \<and> call e (fn_id (file_format file)) file
                \<lparr>arg_dictionary = filteredDictionary_of dictionary fp,
                 arg_platform = platform, arg_file = file\<rparr>
                platform file w2
             = (Inr content, w3)
         \<and> w' = report e (fn_nested (file_format file)) (string_of (file_destination file))
                   (fullDestination_of platform (string_of (file_destination file)))
                   (collisionKey (string_of (file_destination file))) n
                   (w3\<lparr>fs := (fs w3)\<lparr>files := (files (fs w3))
                     (fullDestination_of platform (string_of (file_destination file))
                        \<mapsto> content)\<rparr>\<rparr>)
         \<and> bound_nested (bind (file_format file) file) = JUndefined"
proof -
  from buildFile_returns_undefined [OF assms] obtain fp n w4 where
    fp: "filterProperties e dictionary (file_filter file) = Inr fp" and
    em: "buildFile_emit e file platform dictionary fp (ensureDir e file platform w) = (Inr n, w4)" and
    w': "w' = report e (fn_nested (file_format file)) (string_of (file_destination file))
                   (fullDestination_of platform (string_of (file_destination file)))
                   (collisionKey (string_of (file_destination file))) n w4"
    by blast
  from buildFile_emit_returns [OF em] obtain obj content w3 where
    obj: "nameCollisions (allProperties fp) = Inr obj" and
    cl: "call e (fn_id (file_format file)) file
                \<lparr>arg_dictionary = filteredDictionary_of dictionary fp,
                 arg_platform = platform, arg_file = file\<rparr>
                platform file
                (collisionWarnings e (string_of (file_destination file)) obj
                   (ensureDir e file platform w))
             = (Inr content, w3)" and
    n: "n = length (messagesFor e obj (object_keys obj))" and
    w4: "w4 = w3\<lparr>fs := (fs w3)\<lparr>files := (files (fs w3))
                     (fullDestination_of platform (string_of (file_destination file))
                        \<mapsto> content)\<rparr>\<rparr>"
    by blast
  have n': "n = GroupMessages_count (collisionKey (string_of (file_destination file)))
                  (collisionWarnings e (string_of (file_destination file)) obj
                     (ensureDir e file platform w))"
    by (simp add: n collisionWarnings_eq GroupMessages_count_def)
  show ?thesis
    using fp obj cl n' w' w4
    by (simp add: call_bound_def bind_def createFormatArgs_def bound_nested_def)
qed

theorem C10_nested_read_before_bind_witness:
  "buildFile example_env nested_file \<lparr>buildPath = None\<rparr> example_dictionary example_world
     = (Inr JUndefined,
        snd (buildFile example_env nested_file \<lparr>buildPath = None\<rparr> example_dictionary
               example_world))
   \<and> truthy (fn_nested (file_format nested_file))
   \<and> bound_nested (bind (file_format nested_file) nested_file) = JUndefined
   \<and> console (snd (buildFile example_env nested_file \<lparr>buildPath = None\<rparr> example_dictionary
                      example_world))
       = [check_mark @ '' tokens.json'']"
proof -
  from C10_nested_read_before_bind [OF nested_run]
  have "bound_nested (bind (file_format nested_file) nested_file) = JUndefined"
    by blast
  moreover have "console (snd (buildFile example_env nested_file \<lparr>buildPath = None\<rparr>
                                 example_dictionary example_world))
                   = [check_mark @ '' tokens.json'']"
    by (simp add: model_defs example_defs nested_file_def Let_def)
  ultimately show ?thesis
    using nested_run by (simp add: nested_file_def)
qed

section \<open>Nested formats and collision warnings\<close>

text \<open>
  C1 at a failing input: the format is nested, two tokens share the name \<open>color-a\<close>, and
  the reference-loss group holds one message. The report prints the warning header, the
  collision block and the reference block: the collision warning is not suppressed.
\<close>

theorem C1_nested_collision_warning_printed:
  "truthy (fn_nested (file_format nested_file))
   \<and> console (snd (buildFile example_env nested_file \<lparr>buildPath = None\<rparr> example_dictionary
                      references_world))
       = [warning_sign @ '' tokens.json'',
          collisionBlock example_env ''tokens.json''
            [collisionMessage example_env ''color-a''
               [\<lparr>name = ''color-a'', path = [''color'', ''a''], val = ''#fff''\<rparr>,
                \<lparr>name = ''color-a'', path = [''color'', ''b''], val = ''#000''\<rparr>]],
          referencesBlock example_env ''tokens.json'' [''color.base'']]"
  by (simp add: model_defs example_defs nested_file_def references_world_def Let_def)

section \<open>The collision detector\<close>

lemma first_seen_Nil [simp]: "first_seen [] = []"
  by (simp add: first_seen_def)

lemma first_seen_snoc:
  "first_seen (xs @ [x]) = (if x \<in> set xs then first_seen xs else first_seen xs @ [x])"
  by (simp add: first_seen_def)

lemma set_first_seen [simp]: "set (first_seen xs) = set xs"
  by (simp add: first_seen_def)

lemma distinct_first_seen [simp]: "distinct (first_seen xs)"
  by (simp add: first_seen_def)

lemma tokensNamed_snoc:
  "tokensNamed n (P @ [t]) = tokensNamed n P @ (if name t = n then [t] else [])"
  by (simp add: tokensNamed_def)

lemma grouped_Nil: "grouped [] []"
  by (simp add: grouped_def)

lemma grouped_keys: "grouped P obj \<Longrightarrow> set (map fst obj) = name ` set P"
  by (simp add: grouped_def)

lemma collect_grouped:
  assumes "grouped P obj" and "name t \<notin> set object_prototype_keys"
  shows "\<exists>obj'. collect obj t = Inr obj' \<and> grouped (P @ [t]) obj'"
proof (cases "name t \<in> name ` set P")
  case True
  then have look: "map_of obj (name t) = Some (tokensNamed (name t) P)"
    using assms(1) by (simp add: grouped_def)
  have mem: "name t \<in> set (map fst obj)"
    using True grouped_keys [OF assms(1)] by simp
  let ?obj' = "AList.update (name t) (tokensNamed (name t) P @ [t]) obj"
  have "collect obj t = Inr ?obj'"
    using look by (simp add: collect_def Let_def)
  moreover have "grouped (P @ [t]) ?obj'"
    using assms(1) True mem
    by (auto simp: grouped_def update_keys first_seen_snoc update_conv' tokensNamed_snoc)
  ultimately show ?thesis by blast
next
  case False
  then have look: "map_of obj (name t) = None"
    using assms(1) by (simp add: grouped_def)
  let ?obj' = "obj @ [(name t, [t])]"
  have "collect obj t = Inr ?obj'"
    using look assms(2) by (simp add: collect_def Let_def)
  moreover have "tokensNamed (name t) P = []"
    using False by (force simp: tokensNamed_def filter_empty_conv image_iff)
  then have "grouped (P @ [t]) ?obj'"
    using assms(1) False
    by (auto simp: grouped_def first_seen_snoc tokensNamed_snoc map_add_def
             split: option.splits)
  ultimately show ?thesis by blast
qed

lemma collectAll_grouped:
  assumes "grouped P obj" and "\<forall>t \<in> set ts. name t \<notin> set object_prototype_keys"
  shows "\<exists>obj'. collectAll ts obj = Inr obj' \<and> grouped (P @ ts) obj'"
  using assms
proof (induction ts arbitrary: P obj)
  case Nil
  then show ?case by simp
next
  case (Cons t ts)
  from collect_grouped [OF Cons.prems(1), of t] Cons.prems(2)
  obtain obj1 where c: "collect obj t = Inr obj1" and g: "grouped (P @ [t]) obj1"
    by auto
  from Cons.IH [OF g] Cons.prems(2)
  obtain obj' where "collectAll ts obj1 = Inr obj'" and "grouped ((P @ [t]) @ ts) obj'"
    by auto
  with c show ?case by simp
qed

lemma nameCollisions_grouped:
  assumes "\<forall>t \<in> set T. name t \<notin> set object_prototype_keys"
  shows "\<exists>obj. nameCollisions (Some T) = Inr obj \<and> grouped T obj"
  using collectAll_grouped [OF grouped_Nil assms] by (simp add: nameCollisions_def)

lemma distinct_keys_eq:
  assumes "distinct (map fst obj)"
  shows "obj = map (\<lambda>k. (k, the (map_of obj k))) (map fst obj)"
proof -
  have "map (\<lambda>p. (fst p, the (map_of obj (fst p)))) obj = map (\<lambda>p. p) obj"
  proof (rule map_cong [OF refl])
    fix p assume mem: "p \<in> set obj"
    have "(fst p, snd p) \<in> set obj"
      using mem by simp
    then have "map_of obj (fst p) = Some (snd p)"
      using assms by (rule map_of_is_SomeI [rotated])
    then show "(fst p, the (map_of obj (fst p))) = p"
      by simp
  qed
  then show ?thesis
    by (simp add: comp_def)
qed

lemma grouped_groupsOf:
  assumes "grouped T obj"
  shows "obj = groupsOf T"
proof -
  have keys: "map fst obj = first_seen (map name T)"
    using assms by (simp add: grouped_def)
  then have "distinct (map fst obj)"
    by simp
  then have "obj = map (\<lambda>k. (k, the (map_of obj k))) (first_seen (map name T))"
    using distinct_keys_eq [of obj] keys by simp
  also have "\<dots> = map (\<lambda>n. (n, tokensNamed n T)) (first_seen (map name T))"
    using assms by (intro map_cong) (auto simp: grouped_def)
  finally show ?thesis
    by (simp add: groupsOf_def)
qed

lemma nameCollisions_groupsOf:
  assumes "\<forall>t \<in> set T. name t \<notin> set object_prototype_keys"
  shows "nameCollisions (Some T) = Inr (groupsOf T)"
  using nameCollisions_grouped [OF assms] grouped_groupsOf by auto

lemma messagesFor_grouped:
  assumes "grouped T obj" and "set ks \<subseteq> name ` set T"
  shows "messagesFor e obj ks =
           map (\<lambda>n. collisionMessage e n (tokensNamed n T))
               (filter (\<lambda>n. 2 \<le> length (tokensNamed n T)) ks)"
  using assms(2)
proof (induction ks)
  case Nil
  show ?case by simp
next
  case (Cons k ks)
  then have "map_of obj k = Some (tokensNamed k T)"
    using assms(1) by (simp add: grouped_def)
  with Cons show ?case
    by (auto simp: messagesFor_Cons)
qed

lemma set_key_order [simp]: "set (key_order ks) = set ks"
  by (auto simp: key_order_def)

lemma distinct_key_order: "distinct ks \<Longrightarrow> distinct (key_order ks)"
  by (auto simp: key_order_def)

lemma key_order_no_index:
  "\<forall>k \<in> set ks. \<not> is_array_index k \<Longrightarrow> key_order ks = ks"
  by (simp add: key_order_def filter_empty_conv filter_id_conv)

lemma colliding_names_card:
  "length (filter (\<lambda>n. 2 \<le> length (tokensNamed n T)) (key_order (first_seen (map name T))))
     = card {n. 2 \<le> length (tokensNamed n T)}"
proof -
  have sub: "{n. 2 \<le> length (tokensNamed n T)} \<subseteq> name ` set T"
  proof
    fix n assume "n \<in> {n. 2 \<le> length (tokensNamed n T)}"
    then have "tokensNamed n T \<noteq> []" by auto
    then obtain t where "t \<in> set (tokensNamed n T)"
      by (cases "tokensNamed n T") auto
    then show "n \<in> name ` set T"
      by (auto simp: tokensNamed_def)
  qed
  have "distinct (key_order (first_seen (map name T)))"
    by (simp add: distinct_key_order)
  then have "length (filter (\<lambda>n. 2 \<le> length (tokensNamed n T))
                       (key_order (first_seen (map name T))))
               = card ({n. 2 \<le> length (tokensNamed n T)} \<inter> set (key_order (first_seen (map name T))))"
    by (rule distinct_length_filter)
  also have "{n. 2 \<le> length (tokensNamed n T)} \<inter> set (key_order (first_seen (map name T)))
               = {n. 2 \<le> length (tokensNamed n T)}"
    using sub by auto
  finally show ?thesis .
qed

text \<open>
  C5, as the code has it. For every token list \<open>T\<close> in which no name is a member of
  \<open>Object.prototype\<close>, lines 77-100 leave in the destination's group one message per name
  shared by two or more tokens of \<open>T\<close>, so that the count of line 102 is the number of
  such names; the message of a name lists the path and the value of each of its tokens in
  the order of \<open>T\<close>; and the messages follow the order of \<open>Object.keys\<close>: the names that
  are array indices first, in ascending numeric order, then the other names in the order
  they were first seen. When no name is an array index this is the first-seen order.
\<close>

theorem C5_collision_messages:
  assumes "\<forall>t \<in> set T. name t \<notin> set object_prototype_keys"
  shows "nameCollisions (Some T) = Inr (groupsOf T)
         \<and> groupedMessages (collisionWarnings e destination (groupsOf T) w)
              (collisionKey destination)
             = map (\<lambda>n. collisionMessage e n (tokensNamed n T))
                   (filter (\<lambda>n. 2 \<le> length (tokensNamed n T))
                      (key_order (first_seen (map name T))))
         \<and> GroupMessages_count (collisionKey destination)
               (collisionWarnings e destination (groupsOf T) w)
             = card {n. 2 \<le> length (tokensNamed n T)}
         \<and> ((\<forall>t \<in> set T. \<not> is_array_index (name t)) \<longrightarrow>
              key_order (first_seen (map name T)) = first_seen (map name T))"
proof -
  from nameCollisions_grouped [OF assms] obtain obj where
    obj: "nameCollisions (Some T) = Inr obj" and g: "grouped T obj"
    by blast
  have eq: "obj = groupsOf T"
    using g by (rule grouped_groupsOf)
  have keys: "object_keys obj = key_order (first_seen (map name T))"
    using g by (simp add: object_keys_def grouped_def)
  have msgs: "groupedMessages (collisionWarnings e destination obj w) (collisionKey destination)
               = map (\<lambda>n. collisionMessage e n (tokensNamed n T))
                     (filter (\<lambda>n. 2 \<le> length (tokensNamed n T))
                        (key_order (first_seen (map name T))))"
    using messagesFor_grouped [OF g, of "key_order (first_seen (map name T))" e]
    by (simp add: collisionWarnings_eq keys)
  have cnt: "GroupMessages_count (collisionKey destination)
                 (collisionWarnings e destination obj w)
               = card {n. 2 \<le> length (tokensNamed n T)}"
    unfolding GroupMessages_count_def msgs
    by (simp add: colliding_names_card)
  have ord: "(\<forall>t \<in> set T. \<not> is_array_index (name t)) \<longrightarrow>
                key_order (first_seen (map name T)) = first_seen (map name T)"
    by (auto intro!: key_order_no_index)
  from obj msgs cnt ord show ?thesis
    unfolding eq by blast
qed

theorem C5_collision_messages_witness:
  "list_all (\<lambda>t. name t \<notin> set object_prototype_keys) example_tokens
   \<and> nameCollisions (Some example_tokens)
       = Inr [(''color-a'', [\<lparr>name = ''color-a'', path = [''color'', ''a''], val = ''#fff''\<rparr>,
                             \<lparr>name = ''color-a'', path = [''color'', ''b''], val = ''#000''\<rparr>]),
              (''size-s'', [\<lparr>name = ''size-s'', path = [''size'', ''s''], val = ''4px''\<rparr>])]
   \<and> groupedMessages (collisionWarnings example_env ''tokens.json'' (groupsOf example_tokens)
                         example_world)
        (collisionKey ''tokens.json'')
       = [''Output name color-a was generated by:\<newline>        color.a   #fff\<newline>        color.b   #000'']
   \<and> card {n. 2 \<le> length (tokensNamed n example_tokens)} = 1"
proof -
  have h: "\<forall>t \<in> set example_tokens. name t \<notin> set object_prototype_keys"
    by (simp add: example_tokens_def object_prototype_keys_def)
  note c5 = C5_collision_messages [OF h, of example_env "''tokens.json''" example_world]
  have ev: "map (\<lambda>n. collisionMessage example_env n (tokensNamed n example_tokens))
                 (filter (\<lambda>n. 2 \<le> length (tokensNamed n example_tokens))
                    (key_order (first_seen (map name example_tokens))))
            = [''Output name color-a was generated by:\<newline>        color.a   #fff\<newline>        color.b   #000'']"
    by (simp add: example_tokens_def first_seen_def key_order_def is_array_index_def
          is_digit_def tokensNamed_def collisionMessage_def collisionLine_def example_env_def)
  have gr: "groupsOf example_tokens
              = [(''color-a'', [\<lparr>name = ''color-a'', path = [''color'', ''a''], val = ''#fff''\<rparr>,
                              \<lparr>name = ''color-a'', path = [''color'', ''b''], val = ''#000''\<rparr>]),
                 (''size-s'', [\<lparr>name = ''size-s'', path = [''size'', ''s''], val = ''4px''\<rparr>])]"
    by (simp add: groupsOf_def example_tokens_def first_seen_def tokensNamed_def)
  have msgs: "groupedMessages (collisionWarnings example_env ''tokens.json''
                                 (groupsOf example_tokens) example_world)
                (collisionKey ''tokens.json'')
              = [''Output name color-a was generated by:\<newline>        color.a   #fff\<newline>        color.b   #000'']"
    using c5 ev by simp
  have cnt: "GroupMessages_count (collisionKey ''tokens.json'')
               (collisionWarnings example_env ''tokens.json'' (groupsOf example_tokens)
                  example_world)
             = card {n. 2 \<le> length (tokensNamed n example_tokens)}"
    using c5 by blast
  have one: "card {n. 2 \<le> length (tokensNamed n example_tokens)} = 1"
    using cnt msgs by (simp add: GroupMessages_count_def)
  have nc: "nameCollisions (Some example_tokens) = Inr (groupsOf example_tokens)"
    using c5 by blast
  from h nc msgs one show ?thesis
    unfolding gr by (simp add: list_all_iff)
qed

text \<open>
  Two names, \<open>2\<close> first seen before \<open>1\<close>, each shared by two tokens: the message for
  \<open>1\<close> comes first.
\<close>

theorem C5_array_index_names_reordered:
  "first_seen (map name numbered_tokens) = [''2'', ''1'']
   \<and> nameCollisions (Some numbered_tokens) = Inr numbered_obj
   \<and> groupedMessages (collisionWarnings example_env ''tokens.json'' numbered_obj example_world)
        (collisionKey ''tokens.json'')
      = [''Output name 1 was generated by:\<newline>        size.1   4px\<newline>        space.1   1rem'',
         ''Output name 2 was generated by:\<newline>        size.2   8px\<newline>        space.2   2rem'']"
  by (simp add: numbered_tokens_def numbered_obj_def first_seen_def nameCollisions_def collect_def
        object_prototype_keys_def collisionWarnings_def collisionKey_def object_keys_def
        key_order_def is_array_index_def is_digit_def decimal_value_def GroupMessages_clear_def
        GroupMessages_add_def collisionMessage_def collisionLine_def example_env_def
        example_world_def Let_def)

text \<open>
  A token named like a member of \<open>Object.prototype\<close> makes line 83 throw: the inherited
  member is truthy, so no array is created for the name, and it has no \<open>push\<close>.
\<close>

lemma prototype_name_throws:
  "nameCollisions (Some [\<lparr>name = ''constructor'', path = [''constructor''], val = ''x''\<rparr>])
     = Inl (TypeError ''nameCollisionObj[propertyName].push is not a function'')"
  by (simp add: nameCollisions_def collect_def object_prototype_keys_def)

section \<open>Emitting twice\<close>

lemma buildFile_success:
  assumes "typeof (file_format file) = ''function''"
      and "typeof (file_destination file) = ''string''"
      and "mkdirs_ok e file platform w"
      and "filterProperties e dictionary (file_filter file) = Inr fp"
      and "propertiesEmpty fp = Inr False"
      and "nameCollisions (allProperties fp) = Inr obj"
      and "call e (fn_id (file_format file)) file
             \<lparr>arg_dictionary = filteredDictionary_of dictionary fp,
              arg_platform = platform, arg_file = file\<rparr>
             platform file
             (collisionWarnings e (string_of (file_destination file)) obj
                (ensureDir e file platform w))
           = (Inr content, w3)"
      and "write_error e (fullDestination_of platform (string_of (file_destination file)))
             content (fs w3) = None"
  shows "buildFile e file platform dictionary w =
           (Inr JUndefined,
            report e (fn_nested (file_format file)) (string_of (file_destination file))
              (fullDestination_of platform (string_of (file_destination file)))
              (collisionKey (string_of (file_destination file)))
              (length (messagesFor e obj (object_keys obj)))
              (w3\<lparr>fs := (fs w3)\<lparr>files := (files (fs w3))
                 (fullDestination_of platform (string_of (file_destination file))
                    \<mapsto> content)\<rparr>\<rparr>))"
  using buildFile_filtered [OF assms(1-4)] assms(5-8)
  by (simp add: buildFile_write_def buildFile_emit_eq collisionKey_def Let_def)

lemma mkdirs_ok_after:
  assumes "fs w1 = (fs (ensureDir e file platform w))\<lparr>files := fl\<rparr>"
      and "\<forall>p. files (fs (ensureDir e file platform w)) p \<noteq> None \<longrightarrow> fl p \<noteq> None"
  shows "mkdirs_ok e file platform w1 \<and> ensureDir e file platform w1 = w1"
proof -
  let ?d = "path_dirname e (fullDestination_of platform (string_of (file_destination file)))"
  have "existsSync ?d (fs (ensureDir e file platform w))"
  proof (cases "existsSync ?d (fs w)")
    case True
    then show ?thesis by (simp add: ensureDir_def Let_def)
  next
    case False
    then show ?thesis
      using mkdirs_made_self [of ?d "fs w" "path_dirname e"]
      by (simp add: ensureDir_def existsSync_def Let_def)
  qed
  then have ex: "existsSync ?d (fs w1)"
    using assms by (auto simp: existsSync_def)
  then show ?thesis
    by (simp add: mkdirs_ok_def ensureDir_def Let_def)
qed

text \<open>
  C8, as the code has it. Let the formatter be deterministic: whatever the world, it
  returns \<open>content\<close> and does nothing but register the reference losses \<open>R\<close> (none, for
  a pure formatter); and let the writes succeed. Then two calls of buildFile in
  succession with the same file, platform and dictionary both return at the end; both
  write \<open>content\<close>, and the second leaves the file system as the first left it; the
  destination's collision group holds the same messages after each call (it is cleared
  and rebuilt, not accumulated); the reference-loss group is empty after each call, since
  the report flushes it. When that group was empty before the first call, the second call
  prints the same lines as the first; a message that was in it before the first call is
  reported by the first call only.
\<close>

theorem C8_second_emission:
  assumes t1: "typeof (file_format file) = ''function''"
      and t2: "typeof (file_destination file) = ''string''"
      and ok: "mkdirs_ok e file platform w"
      and fp: "filterProperties e dictionary (file_filter file) = Inr fp"
      and ne: "propertiesEmpty fp = Inr False"
      and obj: "nameCollisions (allProperties fp) = Inr obj"
      and fmt: "\<forall>v. call e (fn_id (file_format file)) file
                       \<lparr>arg_dictionary = filteredDictionary_of dictionary fp,
                        arg_platform = platform, arg_file = file\<rparr>
                       platform file v = (Inr content, registerReferences R v)"
      and wr: "\<forall>f. write_error e
                       (fullDestination_of platform (string_of (file_destination file)))
                       content f = None"
  shows "\<exists>w1 w2.
           buildFile e file platform dictionary w = (Inr JUndefined, w1)
         \<and> buildFile e file platform dictionary w1 = (Inr JUndefined, w2)
         \<and> files (fs w1) (fullDestination_of platform (string_of (file_destination file)))
             = Some content
         \<and> fs w2 = fs w1
         \<and> groupedMessages w1 (collisionKey (string_of (file_destination file)))
             = messagesFor e obj (object_keys obj)
         \<and> groupedMessages w2 (collisionKey (string_of (file_destination file)))
             = groupedMessages w1 (collisionKey (string_of (file_destination file)))
         \<and> groupedMessages w1 GROUP_FilteredOutputReferences = []
         \<and> groupedMessages w2 GROUP_FilteredOutputReferences = []
         \<and> (groupedMessages w GROUP_FilteredOutputReferences = [] \<longrightarrow>
              (\<exists>L. console w1 = console w @ L \<and> console w2 = console w1 @ L))"
proof -
  define dest where "dest = string_of (file_destination file)"
  define full where "full = fullDestination_of platform dest"
  define n where "n = length (messagesFor e obj (object_keys obj))"
  define nested where "nested = fn_nested (file_format file)"
  define wA where "wA = ensureDir e file platform w"
  define wB where "wB = collisionWarnings e dest obj wA"
  define wR where "wR = registerReferences R wB"
  define wC where "wC = wR\<lparr>fs := (fs wR)\<lparr>files := (files (fs wR))(full \<mapsto> content)\<rparr>\<rparr>"
  define w1 where "w1 = report e nested dest full (collisionKey dest) n wC"
  have cl1: "call e (fn_id (file_format file)) file
               \<lparr>arg_dictionary = filteredDictionary_of dictionary fp,
                arg_platform = platform, arg_file = file\<rparr>
               platform file
               (collisionWarnings e (string_of (file_destination file)) obj
                  (ensureDir e file platform w))
             = (Inr content, wR)"
    using fmt by (simp add: wR_def wB_def wA_def dest_def)
  have wr1: "write_error e (fullDestination_of platform (string_of (file_destination file)))
               content (fs wR) = None"
    using wr by simp
  have first: "buildFile e file platform dictionary w = (Inr JUndefined, w1)"
    using buildFile_success [OF t1 t2 ok fp ne obj cl1 wr1]
    by (simp add: w1_def wC_def n_def nested_def full_def dest_def)
  have fs1: "fs w1 = (fs wA)\<lparr>files := (files (fs wA))(full \<mapsto> content)\<rparr>"
    by (simp add: w1_def wC_def wR_def registerReferences_def wB_def collisionWarnings_eq)
  have "mkdirs_ok e file platform w1 \<and> ensureDir e file platform w1 = w1"
    by (rule mkdirs_ok_after [where w = w and fl = "(files (fs wA))(full \<mapsto> content)"])
       (simp_all add: fs1 wA_def)
  then have ok1: "mkdirs_ok e file platform w1" and dir1: "ensureDir e file platform w1 = w1"
    by simp_all
  define wB' where "wB' = collisionWarnings e dest obj w1"
  define wR' where "wR' = registerReferences R wB'"
  define wC' where "wC' = wR'\<lparr>fs := (fs wR')\<lparr>files := (files (fs wR'))(full \<mapsto> content)\<rparr>\<rparr>"
  define w2 where "w2 = report e nested dest full (collisionKey dest) n wC'"
  have cl2: "call e (fn_id (file_format file)) file
               \<lparr>arg_dictionary = filteredDictionary_of dictionary fp,
                arg_platform = platform, arg_file = file\<rparr>
               platform file
               (collisionWarnings e (string_of (file_destination file)) obj
                  (ensureDir e file platform w1))
             = (Inr content, wR')"
    using fmt by (simp add: wR'_def wB'_def dir1 dest_def)
  have wr2: "write_error e (fullDestination_of platform (string_of (file_destination file)))
               content (fs wR') = None"
    using wr by simp
  have second: "buildFile e file platform dictionary w1 = (Inr JUndefined, w2)"
    using buildFile_success [OF t1 t2 ok1 fp ne obj cl2 wr2]
    by (simp add: w2_def wC'_def n_def nested_def full_def dest_def)
  have content1: "files (fs w1) full = Some content"
    by (simp add: fs1)
  have fs2: "fs w2 = fs w1"
    by (simp add: w2_def wC'_def wR'_def registerReferences_def wB'_def collisionWarnings_eq fs1)
  have g1: "groupedMessages w1 (collisionKey dest) = messagesFor e obj (object_keys obj)"
    using collisionKey_neq_references [of dest]
    by (simp add: w1_def wC_def wR_def registerReferences_def wB_def groupedMessages_report
          collisionWarnings_eq)
  have g2: "groupedMessages w2 (collisionKey dest) = messagesFor e obj (object_keys obj)"
    using collisionKey_neq_references [of dest]
    by (simp add: w2_def wC'_def wR'_def registerReferences_def wB'_def groupedMessages_report
          collisionWarnings_eq)
  have r1: "groupedMessages w1 GROUP_FilteredOutputReferences = []"
    by (simp add: w1_def groupedMessages_report)
  have r2: "groupedMessages w2 GROUP_FilteredOutputReferences = []"
    by (simp add: w2_def groupedMessages_report)
  have c1: "console w1 = console w @ reportLines e nested dest full (collisionKey dest) n wC"
    by (simp add: w1_def console_report wC_def wR_def registerReferences_def wB_def wA_def
          collisionWarnings_eq ensureDir_def Let_def)
  have c2: "console w2 = console w1 @ reportLines e nested dest full (collisionKey dest) n wC'"
    by (simp add: w2_def console_report wC'_def wR'_def registerReferences_def wB'_def
          collisionWarnings_eq)
  have same: "groupedMessages w GROUP_FilteredOutputReferences = [] \<Longrightarrow>
                reportLines e nested dest full (collisionKey dest) n wC'
                  = reportLines e nested dest full (collisionKey dest) n wC"
    using collisionKey_neq_references [of dest] r1
    by (simp add: reportLines_def wC'_def wR'_def wC_def wR_def registerReferences_def wB'_def
          wB_def wA_def collisionWarnings_eq ensureDir_def Let_def)
  have lines: "groupedMessages w GROUP_FilteredOutputReferences = [] \<longrightarrow>
              (\<exists>L. console w1 = console w @ L \<and> console w2 = console w1 @ L)"
    using c1 c2 same by auto
  show ?thesis
    using first second content1 fs2 g1 g2 r1 r2 lines
    unfolding full_def dest_def by auto
qed

theorem C8_second_emission_witness:
  "mkdirs_ok referencing_env example_file \<lparr>buildPath = None\<rparr> example_world
   \<and> filterProperties referencing_env example_dictionary (file_filter example_file)
       = Inr example_dictionary
   \<and> propertiesEmpty example_dictionary = Inr False
   \<and> (\<exists>w1 w2.
          buildFile referencing_env example_file \<lparr>buildPath = None\<rparr> example_dictionary example_world
            = (Inr JUndefined, w1)
        \<and> buildFile referencing_env example_file \<lparr>buildPath = None\<rparr> example_dictionary w1
            = (Inr JUndefined, w2)
        \<and> files (fs w1) ''tokens.json'' = Some ''#fff#000''
        \<and> fs w2 = fs w1
        \<and> groupedMessages w2 (collisionKey ''tokens.json'')
            = groupedMessages w1 (collisionKey ''tokens.json'')
        \<and> (\<exists>L. console w1 = console example_world @ L \<and> console w2 = console w1 @ L))"
proof -
  have t1: "typeof (file_format example_file) = ''function''"
    by (simp add: example_file_def)
  have t2: "typeof (file_destination example_file) = ''string''"
    by (simp add: example_file_def)
  have ok: "mkdirs_ok referencing_env example_file \<lparr>buildPath = None\<rparr> example_world"
    by (simp add: mkdirs_ok_def referencing_env_def example_env_def)
  have fp: "filterProperties referencing_env example_dictionary (file_filter example_file)
              = Inr example_dictionary"
    by (simp add: referencing_env_def example_env_def example_file_def)
  have ne: "propertiesEmpty example_dictionary = Inr False"
    by (simp add: propertiesEmpty_def example_dictionary_def length_object_keys)
  have obj: "nameCollisions (allProperties example_dictionary)
               = Inr [(''color-a'',
                       [\<lparr>name = ''color-a'', path = [''color'', ''a''], val = ''#fff''\<rparr>,
                        \<lparr>name = ''color-a'', path = [''color'', ''b''], val = ''#000''\<rparr>])]"
    by (simp add: nameCollisions_def collect_def example_dictionary_def
          object_prototype_keys_def Let_def)
  have fmt: "\<forall>v. call referencing_env (fn_id (file_format example_file)) example_file
                       \<lparr>arg_dictionary = filteredDictionary_of example_dictionary example_dictionary,
                        arg_platform = \<lparr>buildPath = None\<rparr>, arg_file = example_file\<rparr>
                       \<lparr>buildPath = None\<rparr> example_file v
                     = (Inr ''#fff#000'', registerReferences [''color.base''] v)"
    by (simp add: referencing_env_def referencing_env_def filteredDictionary_of_def
          example_dictionary_def)
  have wr: "\<forall>f. write_error referencing_env
                       (fullDestination_of \<lparr>buildPath = None\<rparr>
                          (string_of (file_destination example_file)))
                       ''#fff#000'' f = None"
    by (simp add: referencing_env_def example_env_def)
  have empty: "groupedMessages example_world GROUP_FilteredOutputReferences = []"
    by (simp add: example_world_def)
  from C8_second_emission [OF t1 t2 ok fp ne obj fmt wr] empty
  have "\<exists>w1 w2.
          buildFile referencing_env example_file \<lparr>buildPath = None\<rparr> example_dictionary example_world
            = (Inr JUndefined, w1)
        \<and> buildFile referencing_env example_file \<lparr>buildPath = None\<rparr> example_dictionary w1
            = (Inr JUndefined, w2)
        \<and> files (fs w1) ''tokens.json'' = Some ''#fff#000''
        \<and> fs w2 = fs w1
        \<and> groupedMessages w2 (collisionKey ''tokens.json'')
            = groupedMessages w1 (collisionKey ''tokens.json'')
        \<and> (\<exists>L. console w1 = console example_world @ L \<and> console w2 = console w1 @ L)"
    by (simp add: fullDestination_of_def example_file_def) metis
  with ok fp ne show ?thesis by blast
qed

text \<open>
  With one message in the reference-loss group before the first call, the first call
  prints the warning header and the reference block, the second the success line.
\<close>

theorem C8_references_reported_once:
  "console (snd (buildFile example_env example_file \<lparr>buildPath = None\<rparr> single_dictionary
                   references_world))
     = [warning_sign @ '' tokens.json'',
        referencesBlock example_env ''tokens.json'' [''color.base'']]
   \<and> console (snd (buildFile example_env example_file \<lparr>buildPath = None\<rparr> single_dictionary
                   (snd (buildFile example_env example_file \<lparr>buildPath = None\<rparr> single_dictionary
                           references_world))))
     = [warning_sign @ '' tokens.json'',
        referencesBlock example_env ''tokens.json'' [''color.base''],
        chalk example_env ''bold.green'' (check_mark @ '' tokens.json'')]"
  by (simp add: model_defs example_defs single_dictionary_def references_world_def Let_def)

end
